theory Spec2Isabelle
  imports Main
begin

section \<open>Leave request parsing and eligibility: a shallow embedding\<close>

text \<open>
  The development follows \<^verbatim>\<open>leave-system/models/leave_models.py\<close>,
  \<^verbatim>\<open>leave-system/processors/leave_parser.py\<close>,
  \<^verbatim>\<open>leave-system/processors/leave_processor.py\<close> and
  \<^verbatim>\<open>leave-system/tools/placeholder_tools.py\<close>.
  Python names are kept; a leading underscore of a private method is dropped
  (\<^verbatim>\<open>_determine_leave_type\<close> is \<open>determine_leave_type\<close>).
  Strings are byte strings: the model covers ASCII text.
\<close>

subsection \<open>Strings\<close>

text \<open>Python's \<^verbatim>\<open>t.startswith(s)\<close> and \<^verbatim>\<open>s in t\<close> on strings.\<close>

fun startswith :: "string \<Rightarrow> string \<Rightarrow> bool" where
  "startswith t [] = True"
| "startswith [] (c # s) = False"
| "startswith (d # t) (c # s) = (d = c \<and> startswith t s)"

fun str_in :: "string \<Rightarrow> string \<Rightarrow> bool" where
  "str_in s [] = (s = [])"
| "str_in s (d # t) = (startswith (d # t) s \<or> str_in s t)"

text \<open>\<^verbatim>\<open>any(indicator in text for indicator in indicators)\<close>\<close>

fun any_in :: "string list \<Rightarrow> string \<Rightarrow> bool" where
  "any_in [] text = False"
| "any_in (indicator # rest) text = (str_in indicator text \<or> any_in rest text)"

subsection \<open>Leave types (leave\_models.py)\<close>

datatype LeaveType = OVERNIGHT | FRIDAY_SUPPER | DAY_LEAVE | SPECIAL

subsection \<open>Leave type determination (leave\_parser.py)\<close>

definition OVERNIGHT_INDICATORS :: "string list" where
  "OVERNIGHT_INDICATORS =
     [''overnight'', ''sleep over'', ''stay over'', ''saturday night'', ''weekend leave'']"

definition SUPPER_INDICATORS :: "string list" where
  "SUPPER_INDICATORS =
     [''friday supper'', ''supper'', ''friday evening'', ''friday night out'']"

definition DAY_LEAVE_INDICATORS :: "string list" where
  "DAY_LEAVE_INDICATORS =
     [''day leave'', ''day trip'', ''saturday out'', ''sunday out'', ''day out'']"

definition SPECIAL_INDICATORS :: "string list" where
  "SPECIAL_INDICATORS =
     [''special leave'', ''special permission'', ''emergency'', ''urgent'']"

definition determine_leave_type :: "string \<Rightarrow> LeaveType" where
  "determine_leave_type text =
     (if any_in SPECIAL_INDICATORS text then SPECIAL
      else if any_in OVERNIGHT_INDICATORS text then OVERNIGHT
      else if any_in SUPPER_INDICATORS text then FRIDAY_SUPPER
      else if any_in DAY_LEAVE_INDICATORS text then DAY_LEAVE
      else if str_in ''saturday'' text \<or> str_in ''sunday'' text \<or> str_in ''weekend'' text
        then DAY_LEAVE
      else OVERNIGHT)"

text \<open>
  The specification's reading of category determination: an ordered table of
  (predicate, result) pairs, evaluated top to bottom, the first match returned, with a
  default when no entry matches.
\<close>

fun first_match :: "(('a \<Rightarrow> bool) \<times> 'b) list \<Rightarrow> 'b \<Rightarrow> 'a \<Rightarrow> 'b" where
  "first_match [] dflt x = dflt"
| "first_match ((p, r) # rules) dflt x = (if p x then r else first_match rules dflt x)"

definition spec_category_rules :: "((string \<Rightarrow> bool) \<times> LeaveType) list" where
  "spec_category_rules =
     [(any_in SPECIAL_INDICATORS, SPECIAL),
      (any_in OVERNIGHT_INDICATORS, OVERNIGHT),
      (any_in SUPPER_INDICATORS, FRIDAY_SUPPER),
      (any_in DAY_LEAVE_INDICATORS, DAY_LEAVE),
      (any_in [''weekend'', ''saturday'', ''sunday''], DAY_LEAVE)]"

subsection \<open>Characters\<close>

text \<open>
  Character classes of Python's \<^verbatim>\<open>re\<close> and \<^verbatim>\<open>str.lower\<close>, on ASCII:
  \<^verbatim>\<open>\d\<close> is 0-9, \<^verbatim>\<open>\s\<close> is the characters 9-13, 28-31 and 32, \<^verbatim>\<open>\w\<close> is a letter, a
  digit or the underscore.
\<close>

definition is_digit :: "char \<Rightarrow> bool" where
  "is_digit c = (let n = (of_char c :: nat) in 48 \<le> n \<and> n \<le> 57)"

definition is_upper :: "char \<Rightarrow> bool" where
  "is_upper c = (let n = (of_char c :: nat) in 65 \<le> n \<and> n \<le> 90)"

definition is_lower :: "char \<Rightarrow> bool" where
  "is_lower c = (let n = (of_char c :: nat) in 97 \<le> n \<and> n \<le> 122)"

definition is_space :: "char \<Rightarrow> bool" where
  "is_space c = (let n = (of_char c :: nat) in (9 \<le> n \<and> n \<le> 13) \<or> (28 \<le> n \<and> n \<le> 32))"

definition is_word :: "char \<Rightarrow> bool" where
  "is_word c = (is_digit c \<or> is_upper c \<or> is_lower c \<or> c = CHR ''_'')"

definition lower_chr :: "char \<Rightarrow> char" where
  "lower_chr c = (if is_upper c then char_of ((of_char c :: nat) + 32) else c)"

definition lower :: "string \<Rightarrow> string" where
  "lower s = map lower_chr s"

text \<open>\<^verbatim>\<open>int(s)\<close> on a string of decimal digits, the accumulator first.\<close>

fun int_of_digits :: "nat \<Rightarrow> string \<Rightarrow> nat" where
  "int_of_digits acc [] = acc"
| "int_of_digits acc (c # s) = int_of_digits (10 * acc + ((of_char c :: nat) - 48)) s"

subsection \<open>Regular expressions (Python's re, the fragment the parser uses)\<close>

datatype cls = Digit | Space | Upper | Lower | AnyOf string

datatype rx =
    Eps
  | Lit string
  | Cls cls
  | Star cls
  | Seq rx rx
  | Alt rx rx
  | Grp rx
  | WordB

text \<open>
  \<open>cat\<close> is concatenation, \<open>alts r rs\<close> the alternation \<^verbatim>\<open>r|...\<close> in its order,
  \<open>opt\<close> is \<^verbatim>\<open>(?:r)?\<close>, \<open>plus\<close> is \<^verbatim>\<open>c+\<close> and \<open>rep lo hi\<close> is
  \<^verbatim>\<open>r{lo,hi}\<close>; all greedy.
\<close>

fun cat :: "rx list \<Rightarrow> rx" where
  "cat [] = Eps"
| "cat [r] = r"
| "cat (r # rs) = Seq r (cat rs)"

fun alts :: "rx \<Rightarrow> rx list \<Rightarrow> rx" where
  "alts r [] = r"
| "alts r (x # xs) = Alt r (alts x xs)"

definition opt :: "rx \<Rightarrow> rx" where
  "opt r = Alt r Eps"

definition plus :: "cls \<Rightarrow> rx" where
  "plus c = Seq (Cls c) (Star c)"

fun rep :: "nat \<Rightarrow> nat \<Rightarrow> rx \<Rightarrow> rx" where
  "rep lo 0 r = Eps"
| "rep 0 (Suc hi) r = opt (Seq r (rep 0 hi r))"
| "rep (Suc lo) (Suc hi) r = Seq r (rep lo hi r)"

text \<open>
  A matcher state is the text consumed so far (reversed), the text still to read and the
  groups captured so far. \<open>run\<close> lists the states after a match in the order a
  backtracking matcher tries them, so the head is the match Python reports. \<open>ic\<close> is
  \<^verbatim>\<open>re.IGNORECASE\<close>.
\<close>

type_synonym mstate = "string \<times> string \<times> string list"

definition chr_eq :: "bool \<Rightarrow> char \<Rightarrow> char \<Rightarrow> bool" where
  "chr_eq ic c d = (if ic then lower_chr c = lower_chr d else c = d)"

fun cls_ok :: "bool \<Rightarrow> cls \<Rightarrow> char \<Rightarrow> bool" where
  "cls_ok ic Digit c = is_digit c"
| "cls_ok ic Space c = is_space c"
| "cls_ok ic Upper c = (is_upper c \<or> (ic \<and> is_lower c))"
| "cls_ok ic Lower c = (is_lower c \<or> (ic \<and> is_upper c))"
| "cls_ok ic (AnyOf s) c = list_ex (\<lambda>d. chr_eq ic d c) s"

fun lit_run :: "bool \<Rightarrow> string \<Rightarrow> mstate \<Rightarrow> mstate list" where
  "lit_run ic [] st = [st]"
| "lit_run ic (c # s) (b, [], g) = []"
| "lit_run ic (c # s) (b, x # xs, g) = (if chr_eq ic c x then lit_run ic s (x # b, xs, g) else [])"

fun star_run :: "bool \<Rightarrow> cls \<Rightarrow> mstate \<Rightarrow> mstate list" where
  "star_run ic c (b, [], g) = [(b, [], g)]"
| "star_run ic c (b, x # xs, g) =
     (if cls_ok ic c x then star_run ic c (x # b, xs, g) @ [(b, x # xs, g)]
      else [(b, x # xs, g)])"

definition at_boundary :: "mstate \<Rightarrow> bool" where
  "at_boundary st =
     (case st of (b, r, g) \<Rightarrow>
        (case b of [] \<Rightarrow> False | p # _ \<Rightarrow> is_word p) \<noteq>
        (case r of [] \<Rightarrow> False | n # _ \<Rightarrow> is_word n))"

definition close_group :: "mstate \<Rightarrow> mstate \<Rightarrow> mstate" where
  "close_group st0 st =
     (case st0 of (b0, r0, g0) \<Rightarrow> case st of (b, r, g) \<Rightarrow>
        (b, r, g @ [rev (take (length b - length b0) b)]))"

fun run :: "bool \<Rightarrow> rx \<Rightarrow> mstate \<Rightarrow> mstate list" where
  "run ic Eps st = [st]"
| "run ic (Lit s) st = lit_run ic s st"
| "run ic (Cls c) (b, [], g) = []"
| "run ic (Cls c) (b, x # xs, g) = (if cls_ok ic c x then [(x # b, xs, g)] else [])"
| "run ic (Star c) st = star_run ic c st"
| "run ic (Seq p q) st = concat (map (run ic q) (run ic p st))"
| "run ic (Alt p q) st = run ic p st @ run ic q st"
| "run ic (Grp p) st = map (close_group st) (run ic p st)"
| "run ic WordB st = (if at_boundary st then [st] else [])"

text \<open>
  \<^verbatim>\<open>re.search\<close>: the first match at the leftmost position that has one; the result is
  the list of its groups (\<^verbatim>\<open>match.groups()\<close>), \<open>None\<close> when nothing matches.
\<close>

fun search_from :: "bool \<Rightarrow> rx \<Rightarrow> string \<Rightarrow> string \<Rightarrow> string list option" where
  "search_from ic r b [] =
     (case run ic r (b, [], []) of [] \<Rightarrow> None | (_, _, g) # _ \<Rightarrow> Some g)"
| "search_from ic r b (x # xs) =
     (case run ic r (b, x # xs, []) of
        [] \<Rightarrow> search_from ic r (x # b) xs
      | (_, _, g) # _ \<Rightarrow> Some g)"

definition re_search :: "bool \<Rightarrow> rx \<Rightarrow> string \<Rightarrow> string list option" where
  "re_search ic r text = search_from ic r [] text"

text \<open>\<^verbatim>\<open>match.group(1)\<close> of a search result, for a pattern with one group.\<close>

fun group1 :: "string list option \<Rightarrow> string option" where
  "group1 None = None"
| "group1 (Some []) = None"
| "group1 (Some (g # _)) = Some g"

subsection \<open>Dates and times (Python's datetime)\<close>

text \<open>
  A \<^verbatim>\<open>datetime\<close> is kept as the proleptic Gregorian ordinal of its date
  (\<^verbatim>\<open>toordinal()\<close>: 1 January of year 1 is day 1) and its time of day. Comparison
  is lexicographic, as Python's. The ordinal is an unbounded integer: the model does not
  stop at the years 1 and 9999.
\<close>

record datetime =
  ordinal :: int
  hour :: nat
  minute :: nat
  second :: nat
  microsecond :: nat

definition dt_less :: "datetime \<Rightarrow> datetime \<Rightarrow> bool" where
  "dt_less a b =
     (ordinal a < ordinal b \<or> (ordinal a = ordinal b \<and>
       (hour a < hour b \<or> (hour a = hour b \<and>
         (minute a < minute b \<or> (minute a = minute b \<and>
           (second a < second b \<or> (second a = second b \<and>
             microsecond a < microsecond b))))))))"

text \<open>\<^verbatim>\<open>d.weekday()\<close>: Monday is 0, Saturday is 5, Sunday is 6.\<close>

definition weekday :: "datetime \<Rightarrow> int" where
  "weekday d = (ordinal d + 6) mod 7"

text \<open>\<^verbatim>\<open>d + timedelta(days=n)\<close> and \<^verbatim>\<open>d.replace(hour=h, minute=m)\<close>.\<close>

definition add_days :: "datetime \<Rightarrow> int \<Rightarrow> datetime" where
  "add_days d n = d\<lparr>ordinal := ordinal d + n\<rparr>"

definition replace_hm :: "datetime \<Rightarrow> nat \<Rightarrow> nat \<Rightarrow> datetime" where
  "replace_hm d h m = d\<lparr>hour := h, minute := m\<rparr>"

text \<open>The calendar of the \<^verbatim>\<open>datetime\<close> module: leap years, days per month, ordinals.\<close>

definition is_leap :: "int \<Rightarrow> bool" where
  "is_leap y = (y mod 4 = 0 \<and> (y mod 100 \<noteq> 0 \<or> y mod 400 = 0))"

definition days_in_month :: "int \<Rightarrow> int \<Rightarrow> int" where
  "days_in_month y m =
     (if m = 2 then (if is_leap y then 29 else 28)
      else if m = 4 \<or> m = 6 \<or> m = 9 \<or> m = 11 then 30 else 31)"

definition days_before_year :: "int \<Rightarrow> int" where
  "days_before_year y = (y - 1) * 365 + (y - 1) div 4 - (y - 1) div 100 + (y - 1) div 400"

definition days_before_month :: "int \<Rightarrow> int \<Rightarrow> int" where
  "days_before_month y m =
     [0, 0, 31, 59, 90, 120, 151, 181, 212, 243, 273, 304, 334] ! nat m
       + (if m > 2 \<and> is_leap y then 1 else 0)"

definition ymd2ord :: "int \<Rightarrow> int \<Rightarrow> int \<Rightarrow> int" where
  "ymd2ord y m d = days_before_year y + days_before_month y m + d"

text \<open>
  \<^verbatim>\<open>datetime(y, m, d, hh, mm)\<close>; \<open>None\<close> is the \<^verbatim>\<open>ValueError\<close> of a date that
  does not exist.
\<close>

definition mk_datetime :: "int \<Rightarrow> int \<Rightarrow> int \<Rightarrow> nat \<Rightarrow> nat \<Rightarrow> datetime option" where
  "mk_datetime y m d hh mm =
     (if 1 \<le> y \<and> y \<le> 9999 \<and> 1 \<le> m \<and> m \<le> 12 \<and> 1 \<le> d \<and> d \<le> days_in_month y m
      then Some \<lparr>ordinal = ymd2ord y m d, hour = hh, minute = mm, second = 0, microsecond = 0\<rparr>
      else None)"

subsection \<open>datetime.strptime, for the formats the parser tries\<close>

text \<open>
  A format is a list of directives and literal characters. As in CPython, the format is
  turned into a regular expression with one group per directive, matched at the start of
  the string without regard to case; text left over after the match is an error.
\<close>

datatype fmt_item = Pd | Pm | PY | Py | PB | Pb | Pc char

definition month_names :: "string list" where
  "month_names = [''january'', ''february'', ''march'', ''april'', ''may'', ''june'', ''july'',
     ''august'', ''september'', ''october'', ''november'', ''december'']"

definition month_abbrs :: "string list" where
  "month_abbrs = [''jan'', ''feb'', ''mar'', ''apr'', ''may'', ''jun'', ''jul'', ''aug'', ''sep'',
     ''oct'', ''nov'', ''dec'']"

definition digit19 :: rx where
  "digit19 = Cls (AnyOf ''123456789'')"

fun fmt_rx :: "fmt_item \<Rightarrow> rx" where
  "fmt_rx Pd = Grp (alts (Seq (Lit ''3'') (Cls (AnyOf ''01'')))
                 [Seq (Cls (AnyOf ''12'')) (Cls Digit), Seq (Lit ''0'') digit19, digit19,
                  Seq (Lit '' '') digit19])"
| "fmt_rx Pm = Grp (alts (Seq (Lit ''1'') (Cls (AnyOf ''012''))) [Seq (Lit ''0'') digit19, digit19])"
| "fmt_rx PY = Grp (rep 4 4 (Cls Digit))"
| "fmt_rx Py = Grp (rep 2 2 (Cls Digit))"
| "fmt_rx PB = Grp (alts (Lit ''september'') (map Lit [''february'', ''november'', ''december'',
                 ''january'', ''october'', ''august'', ''march'', ''april'', ''june'', ''july'', ''may'']))"
| "fmt_rx Pb = Grp (alts (Lit ''jan'') (map Lit (tl month_abbrs)))"
| "fmt_rx (Pc c) = (if is_space c then plus Space else Lit [c])"

text \<open>The index of a month name in its table, from 1; 0 when it is not there.\<close>

fun index_of :: "string \<Rightarrow> string list \<Rightarrow> nat" where
  "index_of x [] = 0"
| "index_of x (y # ys) = (if x = y then 1 else (case index_of x ys of 0 \<Rightarrow> 0 | Suc k \<Rightarrow> Suc (Suc k)))"

text \<open>
  The groups are read in the order of the directives; year, month and day start at
  1900, 1 and 1. A two-digit year up to 68 is in 2000-2068, from 69 in 1969-1999.
\<close>

fun fmt_fields :: "fmt_item list \<Rightarrow> string list \<Rightarrow> int \<times> int \<times> int \<Rightarrow> int \<times> int \<times> int" where
  "fmt_fields [] gs ymd = ymd"
| "fmt_fields (Pc c # fs) gs ymd = fmt_fields fs gs ymd"
| "fmt_fields (f # fs) [] ymd = ymd"
| "fmt_fields (Pd # fs) (g # gs) (y, m, d) =
     fmt_fields fs gs (y, m, int (int_of_digits 0 (filter is_digit g)))"
| "fmt_fields (Pm # fs) (g # gs) (y, m, d) = fmt_fields fs gs (y, int (int_of_digits 0 g), d)"
| "fmt_fields (PY # fs) (g # gs) (y, m, d) = fmt_fields fs gs (int (int_of_digits 0 g), m, d)"
| "fmt_fields (Py # fs) (g # gs) (y, m, d) =
     fmt_fields fs gs
       (let n = int (int_of_digits 0 g) in if n \<le> 68 then n + 2000 else n + 1900, m, d)"
| "fmt_fields (PB # fs) (g # gs) (y, m, d) =
     fmt_fields fs gs (y, int (index_of (lower g) month_names), d)"
| "fmt_fields (Pb # fs) (g # gs) (y, m, d) =
     fmt_fields fs gs (y, int (index_of (lower g) month_abbrs), d)"

definition strptime :: "string \<Rightarrow> fmt_item list \<Rightarrow> datetime option" where
  "strptime date_str fmt =
     (case run True (cat (map fmt_rx fmt)) ([], date_str, []) of
        [] \<Rightarrow> None
      | (b, r, g) # _ \<Rightarrow>
          if r \<noteq> [] then None
          else (case fmt_fields fmt g (1900, 1, 1) of (y, m, d) \<Rightarrow> mk_datetime y m d 0 0))"

subsection \<open>Date resolution (leave\_parser.py)\<close>

text \<open>
  \<^verbatim>\<open>_parse_date_string\<close>: the formats \<^verbatim>\<open>%d/%m/%Y\<close>, \<^verbatim>\<open>%d-%m-%Y\<close>, \<^verbatim>\<open>%d/%m/%y\<close>,
  \<^verbatim>\<open>%d-%m-%y\<close>, \<^verbatim>\<open>%d %B %Y\<close>, \<^verbatim>\<open>%d %b %Y\<close> in this order; the first that parses
  wins.
\<close>

definition date_formats :: "fmt_item list list" where
  "date_formats =
     [[Pd, Pc CHR ''/'', Pm, Pc CHR ''/'', PY],
      [Pd, Pc CHR ''-'', Pm, Pc CHR ''-'', PY],
      [Pd, Pc CHR ''/'', Pm, Pc CHR ''/'', Py],
      [Pd, Pc CHR ''-'', Pm, Pc CHR ''-'', Py],
      [Pd, Pc CHR '' '', PB, Pc CHR '' '', PY],
      [Pd, Pc CHR '' '', Pb, Pc CHR '' '', PY]]"

fun try_formats :: "string \<Rightarrow> fmt_item list list \<Rightarrow> datetime option" where
  "try_formats date_str [] = None"
| "try_formats date_str (fmt # fmts) =
     (case strptime date_str fmt of Some d \<Rightarrow> Some d | None \<Rightarrow> try_formats date_str fmts)"

definition parse_date_string :: "string \<Rightarrow> datetime option" where
  "parse_date_string date_str = try_formats date_str date_formats"

text \<open>The dictionary \<^verbatim>\<open>self.weekdays\<close>, in its insertion order.\<close>

definition weekdays :: "(string \<times> int) list" where
  "weekdays = [(''monday'', 0), (''tuesday'', 1), (''wednesday'', 2), (''thursday'', 3),
     (''friday'', 4), (''saturday'', 5), (''sunday'', 6)]"

text \<open>
  \<^verbatim>\<open>_parse_relative_date\<close>. The source reads the clock, \<^verbatim>\<open>datetime.now()\<close>; the
  reading is the argument \<open>now\<close> here. \<open>days_ahead_for\<close> is the body of the loop over
  the weekdays once a name is found.
\<close>

definition days_ahead_for :: "string \<Rightarrow> int \<Rightarrow> int \<Rightarrow> int" where
  "days_ahead_for date_str_lower day_num current_weekday =
     (let days_ahead = day_num - current_weekday in
      if str_in ''next'' date_str_lower then days_ahead + (if days_ahead > 0 then 7 else 7)
      else if str_in ''this'' date_str_lower \<or> days_ahead < 0
        then days_ahead + (if days_ahead \<le> 0 then 7 else 0)
      else days_ahead)"

fun weekday_loop :: "(string \<times> int) list \<Rightarrow> string \<Rightarrow> datetime \<Rightarrow> datetime option" where
  "weekday_loop [] date_str_lower today = None"
| "weekday_loop ((day_name, day_num) # rest) date_str_lower today =
     (if str_in day_name date_str_lower
      then Some (add_days today (days_ahead_for date_str_lower day_num (weekday today)))
      else weekday_loop rest date_str_lower today)"

definition replace_midnight :: "datetime \<Rightarrow> datetime" where
  "replace_midnight d = d\<lparr>hour := 0, minute := 0, second := 0, microsecond := 0\<rparr>"

definition parse_relative_date :: "datetime \<Rightarrow> string \<Rightarrow> datetime option" where
  "parse_relative_date now date_str =
     (let date_str_lower = lower date_str;
          today = replace_midnight now
      in if str_in ''today'' date_str_lower then Some today
         else if str_in ''tomorrow'' date_str_lower then Some (add_days today 1)
         else (case weekday_loop weekdays date_str_lower today of
                 Some d \<Rightarrow> Some d
               | None \<Rightarrow> parse_date_string date_str))"

text \<open>\<^verbatim>\<open>_infer_date_range\<close>: a guarded branch that does not return falls to the default.\<close>

definition infer_date_range :: "datetime \<Rightarrow> LeaveType \<Rightarrow> datetime \<times> datetime" where
  "infer_date_range base_date leave_type =
     (if leave_type = OVERNIGHT \<and> weekday base_date = 5
        then (replace_hm base_date 14 0, replace_hm (add_days base_date 1) 18 50)
      else if leave_type = FRIDAY_SUPPER \<and> weekday base_date = 4
        then (replace_hm base_date 17 0, replace_hm base_date 21 0)
      else if leave_type = DAY_LEAVE
        then (replace_hm base_date 9 0, replace_hm base_date 17 0)
      else (replace_hm base_date 9 0, replace_hm base_date 17 0))"

text \<open>\<^verbatim>\<open>_apply_leave_times\<close>\<close>

fun apply_leave_times ::
  "datetime option \<Rightarrow> datetime option \<Rightarrow> LeaveType \<Rightarrow> datetime option \<times> datetime option" where
  "apply_leave_times (Some start_date) (Some end_date) leave_type =
     (if leave_type = OVERNIGHT
        then (Some (replace_hm start_date 14 0), Some (replace_hm end_date 18 50))
      else if leave_type = FRIDAY_SUPPER
        then (Some (replace_hm start_date 17 0), Some (replace_hm end_date 21 0))
      else if leave_type = DAY_LEAVE
        then (Some (replace_hm start_date 9 0), Some (replace_hm end_date 17 0))
      else (Some start_date, Some end_date))"
| "apply_leave_times start_date end_date leave_type = (start_date, end_date)"

text \<open>The patterns of \<^verbatim>\<open>_extract_dates\<close> and \<^verbatim>\<open>DATE_PATTERNS\<close>.\<close>

definition numeric_date :: rx where
  "numeric_date = Grp (cat [rep 1 2 (Cls Digit), Cls (AnyOf ''-/''), rep 1 2 (Cls Digit),
     Cls (AnyOf ''-/''), rep 2 4 (Cls Digit)])"

definition date_range_pattern :: rx where
  "date_range_pattern = cat [numeric_date, Star Space,
     alts (Lit ''to'') [Lit ''-'', Lit ''until''], Star Space, numeric_date]"

definition DATE_PATTERNS :: "rx list" where
  "DATE_PATTERNS =
     [numeric_date,
      Grp (cat [rep 1 2 (Cls Digit), plus Space,
        alts (Lit ''Jan'') (map Lit [''Feb'', ''Mar'', ''Apr'', ''May'', ''Jun'', ''Jul'', ''Aug'',
          ''Sep'', ''Oct'', ''Nov'', ''Dec'']),
        Star Lower, plus Space, rep 2 4 (Cls Digit)]),
      Grp (cat [Lit ''this'', plus Space,
        alts (Lit ''saturday'') [Lit ''sunday'', Lit ''weekend'', Lit ''friday'']]),
      Grp (cat [Lit ''next'', plus Space,
        alts (Lit ''saturday'') [Lit ''sunday'', Lit ''weekend'', Lit ''friday'']]),
      Grp (Lit ''tomorrow''),
      Grp (Lit ''today'')]"

text \<open>\<^verbatim>\<open>_extract_dates\<close>: the explicit range first, then the loop over the patterns.\<close>

fun single_date_loop ::
  "datetime \<Rightarrow> rx list \<Rightarrow> string \<Rightarrow> LeaveType \<Rightarrow> datetime option \<times> datetime option" where
  "single_date_loop now [] text leave_type = (None, None)"
| "single_date_loop now (pattern # rest) text leave_type =
     (case group1 (re_search True pattern text) of
        None \<Rightarrow> single_date_loop now rest text leave_type
      | Some date_str \<Rightarrow>
          (case parse_relative_date now date_str of
             None \<Rightarrow> single_date_loop now rest text leave_type
           | Some base_date \<Rightarrow>
               (case infer_date_range base_date leave_type of
                  (start, end) \<Rightarrow> (Some start, Some end))))"

definition extract_dates ::
  "datetime \<Rightarrow> string \<Rightarrow> LeaveType \<Rightarrow> datetime option \<times> datetime option" where
  "extract_dates now text leave_type =
     (case re_search False date_range_pattern text of
        Some (start_str # end_str # _) \<Rightarrow>
          apply_leave_times (parse_date_string start_str) (parse_date_string end_str) leave_type
      | _ \<Rightarrow> single_date_loop now DATE_PATTERNS text leave_type)"

text \<open>\<^verbatim>\<open>_extract_student_identifier\<close>\<close>

definition capitalized :: rx where
  "capitalized = Seq (Cls Upper) (plus Lower)"

definition admin_pattern :: rx where
  "admin_pattern = cat [WordB, Grp (rep 5 5 (Cls Digit)), WordB]"

definition for_pattern :: rx where
  "for_pattern = cat [Lit ''for'', plus Space,
     Grp (Seq capitalized (opt (Seq (plus Space) capitalized)))]"

definition name_pattern :: rx where
  "name_pattern = cat [WordB, Grp (cat [capitalized, plus Space, capitalized]), WordB]"

definition first_name_pattern :: rx where
  "first_name_pattern = cat [alts (Lit ''for'') [Lit ''my son'', Lit ''student''], plus Space,
     Grp capitalized]"

definition extract_student_identifier :: "string \<Rightarrow> string option" where
  "extract_student_identifier text =
     (case group1 (re_search False admin_pattern text) of
        Some a \<Rightarrow> Some a
      | None \<Rightarrow>
     (case group1 (re_search False for_pattern text) of
        Some a \<Rightarrow> Some a
      | None \<Rightarrow>
     (case group1 (re_search False name_pattern text) of
        Some a \<Rightarrow> Some a
      | None \<Rightarrow> group1 (re_search True first_name_pattern text))))"

text \<open>\<^verbatim>\<open>parse_request\<close>\<close>

record parsed_data =
  student_identifier :: "string option"
  pd_leave_type :: LeaveType
  pd_start_date :: "datetime option"
  pd_end_date :: "datetime option"
  raw_text :: string

definition parse_request :: "datetime \<Rightarrow> string \<Rightarrow> parsed_data" where
  "parse_request now message_text =
     (let text_lower = lower message_text;
          ident = extract_student_identifier message_text;
          lt = determine_leave_type text_lower;
          dates = extract_dates now text_lower lt
      in \<lparr>student_identifier = ident, pd_leave_type = lt, pd_start_date = fst dates,
          pd_end_date = snd dates, raw_text = message_text\<rparr>)"

subsection \<open>Auxiliary predicates\<close>

text \<open>
  What the lookup of a weekday name, written after the prefix \<open>q\<close>, does: the
  expression is neither today nor tomorrow, the loop over the weekdays stops at this
  name, and the qualifier seen is the prefix.
\<close>

definition name_resolves :: "string \<Rightarrow> datetime \<Rightarrow> string \<times> int \<Rightarrow> bool" where
  "name_resolves q today = (\<lambda>(day_name, day_num).
     \<not> str_in ''today'' (q @ day_name) \<and> \<not> str_in ''tomorrow'' (q @ day_name)
     \<and> weekday_loop weekdays (q @ day_name) today =
         Some (add_days today (days_ahead_for (q @ day_name) day_num (weekday today)))
     \<and> str_in ''this'' (q @ day_name) = (q = ''this '')
     \<and> str_in ''next'' (q @ day_name) = (q = ''next '')
     \<and> 0 \<le> day_num \<and> day_num < 7)"

subsection \<open>Formatting (str of an int, datetime.strftime)\<close>

definition nl :: string where
  "nl = [CHR 0x0A]"

definition apostrophe :: string where
  "apostrophe = [CHR 0x27]"

fun digits :: "nat \<Rightarrow> string" where
  "digits n = (if n < 10 then [char_of (48 + n)] else digits (n div 10) @ [char_of (48 + n mod 10)])"

definition str_of_int :: "int \<Rightarrow> string" where
  "str_of_int i = (if i < 0 then ''-'' @ digits (nat (- i)) else digits (nat i))"

definition zfill2 :: "nat \<Rightarrow> string" where
  "zfill2 n = (if n < 10 then ''0'' @ digits n else digits n)"

text \<open>The inverse of \<open>ymd2ord\<close>, as the \<^verbatim>\<open>datetime\<close> module computes it.\<close>

definition ord2ymd :: "int \<Rightarrow> int \<times> int \<times> int" where
  "ord2ymd n0 =
     (let n = n0 - 1;
          n400 = n div 146097; n = n mod 146097;
          year = n400 * 400 + 1;
          n100 = n div 36524; n = n mod 36524;
          n4 = n div 1461; n = n mod 1461;
          n1 = n div 365; n = n mod 365;
          year = year + n100 * 100 + n4 * 4 + n1
      in if n1 = 4 \<or> n100 = 4 then (year - 1, 12, 31)
         else
           let leapyear = (n1 = 3 \<and> (n4 \<noteq> 24 \<or> n100 = 3));
               month = (n + 50) div 32;
               preceding = [0, 0, 31, 59, 90, 120, 151, 181, 212, 243, 273, 304, 334] ! nat month
                 + (if month > 2 \<and> leapyear then 1 else 0)
           in if preceding > n
              then
                let month = month - 1;
                    preceding = preceding
                      - ([0, 31, 28, 31, 30, 31, 30, 31, 31, 30, 31, 30, 31] ! nat month
                         + (if month = 2 \<and> leapyear then 1 else 0))
                in (year, month, n - preceding + 1)
              else (year, month, n - preceding + 1))"

definition day_names :: "string list" where
  "day_names = [''Monday'', ''Tuesday'', ''Wednesday'', ''Thursday'', ''Friday'', ''Saturday'',
     ''Sunday'']"

definition month_full_names :: "string list" where
  "month_full_names = [''January'', ''February'', ''March'', ''April'', ''May'', ''June'', ''July'',
     ''August'', ''September'', ''October'', ''November'', ''December'']"

text \<open>
  \<^verbatim>\<open>d.strftime(fmt)\<close> for the directives \<^verbatim>\<open>%A %d %B %Y %H %M\<close>; any other
  character of the format is copied.
\<close>

fun strftime :: "datetime \<Rightarrow> string \<Rightarrow> string" where
  "strftime d [] = []"
| "strftime d [c] = [c]"
| "strftime d (c # x # fmt) =
     (if c = CHR ''%'' then
        (if x = CHR ''A'' then day_names ! nat (weekday d)
         else if x = CHR ''d'' then zfill2 (nat (snd (snd (ord2ymd (ordinal d)))))
         else if x = CHR ''B'' then month_full_names ! nat (fst (snd (ord2ymd (ordinal d))) - 1)
         else if x = CHR ''Y'' then str_of_int (fst (ord2ymd (ordinal d)))
         else if x = CHR ''H'' then zfill2 (hour d)
         else if x = CHR ''M'' then zfill2 (minute d)
         else [c, x]) @ strftime d fmt
      else c # strftime d (x # fmt))"

subsection \<open>Data models (leave\_models.py)\<close>

fun leave_type_value :: "LeaveType \<Rightarrow> string" where
  "leave_type_value OVERNIGHT = ''Overnight''"
| "leave_type_value FRIDAY_SUPPER = ''Friday Supper''"
| "leave_type_value DAY_LEAVE = ''Day Leave''"
| "leave_type_value SPECIAL = ''Special''"

datatype LeaveStatus = PENDING | APPROVED | REJECTED | CANCELLED | SPECIAL_PENDING

record StudentInfo =
  admin_number :: string
  first_name :: string
  last_name :: string
  house :: string
  block :: string
  overnight_balance :: int
  friday_supper_balance :: int

definition full_name :: "StudentInfo \<Rightarrow> string" where
  "full_name s = first_name s @ '' '' @ last_name s"

record ParentInfo =
  auth_id :: string
  parent_name :: "string option"
  phone :: "string option"
  email :: "string option"
  channel :: string

record LeaveRequest =
  student :: StudentInfo
  parent :: ParentInfo
  leave_type :: LeaveType
  start_date :: "datetime option"
  end_date :: "datetime option"
  lr_status :: LeaveStatus
  rejection_reason :: "string option"
  special_leave_reason :: "string option"
  housemaster_notes :: "string option"

subsection \<open>The tools the processor calls\<close>

text \<open>
  The processor reaches its data through \<^verbatim>\<open>self.tools\<close>, which is the placeholder
  \<^verbatim>\<open>LeaveSystemTools\<close> unless a caller replaces it. A tool is a function of its
  arguments and of the store behind the tools, and returns its result with the store
  after the call. The result types are the ones the tools declare: a tool is taken to
  return.
\<close>

record student_record =
  adminNumber :: string
  firstName :: string
  lastName :: string
  sr_house :: string
  sr_block :: string
  balances_overnight :: int
  balances_fridaySupper :: int

record date_validity =
  isValid :: bool
  dv_reason :: string

record leave_update_args =
  lu_student_admin_number :: string
  lu_leave_type :: string
  lu_start_date :: "datetime option"
  lu_end_date :: "datetime option"
  lu_requesting_parent :: string
  lu_student_name :: string
  lu_house :: string
  lu_block :: string
  lu_departure_timestamp :: "datetime option"
  lu_driver_id_capture :: "string option"
  lu_cancellation_details :: "(string \<times> string) option"

record 's tools =
  tool_parent_phone_check :: "string \<Rightarrow> 's \<Rightarrow> string option \<times> 's"
  tool_parent_email_check :: "string \<Rightarrow> 's \<Rightarrow> string option \<times> 's"
  tool_student_parent_linkage :: "string \<Rightarrow> string \<Rightarrow> 's \<Rightarrow> student_record option \<times> 's"
  tool_leave_balance_check :: "string \<Rightarrow> string \<Rightarrow> 's \<Rightarrow> int \<times> 's"
  tool_date_validity_check :: "string \<Rightarrow> datetime \<Rightarrow> datetime \<Rightarrow> 's \<Rightarrow> date_validity \<times> 's"
  tool_restriction_check :: "string \<Rightarrow> datetime \<Rightarrow> datetime \<Rightarrow> 's \<Rightarrow> bool \<times> 's"
  tool_leave_update :: "leave_update_args \<Rightarrow> 's \<Rightarrow> bool \<times> 's"

subsection \<open>The placeholder tools (placeholder\_tools.py)\<close>

text \<open>\<^verbatim>\<open>datetime(y, m, d)\<close> for a date that exists.\<close>

definition datetime_of :: "int \<Rightarrow> int \<Rightarrow> int \<Rightarrow> datetime" where
  "datetime_of y m d =
     \<lparr>ordinal = ymd2ord y m d, hour = 0, minute = 0, second = 0, microsecond = 0\<rparr>"

definition mock_parents_phone :: "(string \<times> string) list" where
  "mock_parents_phone = [(''27603174174'', ''PARENT_001''), (''27821234567'', ''PARENT_002'')]"

definition mock_parents_email :: "(string \<times> string) list" where
  "mock_parents_email = [(''john.smith@example.com'', ''PARENT_001''),
     (''jane.doe@example.com'', ''PARENT_002'')]"

definition placeholder_parent_phone_check :: "string \<Rightarrow> string option" where
  "placeholder_parent_phone_check phone_number = map_of mock_parents_phone phone_number"

definition placeholder_parent_email_check :: "string \<Rightarrow> string option" where
  "placeholder_parent_email_check email_address = map_of mock_parents_email (lower email_address)"

definition mock_students :: "(string \<times> student_record list) list" where
  "mock_students =
     [(''PARENT_001'',
        [\<lparr>adminNumber = ''12345'', firstName = ''James'', lastName = ''Smith'',
          sr_house = ''Finningley'', sr_block = ''C'', balances_overnight = 3,
          balances_fridaySupper = 3\<rparr>]),
      (''PARENT_002'',
        [\<lparr>adminNumber = ''67890'', firstName = ''Michael'', lastName = ''Doe'',
          sr_house = ''Shepstone'', sr_block = ''E'', balances_overnight = 2,
          balances_fridaySupper = 3\<rparr>])]"

fun linkage_loop :: "student_record list \<Rightarrow> string \<Rightarrow> student_record option" where
  "linkage_loop [] requested_student_identifier = None"
| "linkage_loop (st # students) requested_student_identifier =
     (if adminNumber st = requested_student_identifier
         \<or> str_in (lower (firstName st)) (lower requested_student_identifier)
         \<or> str_in (lower (lastName st)) (lower requested_student_identifier)
      then Some st else linkage_loop students requested_student_identifier)"

definition placeholder_student_parent_linkage :: "string \<Rightarrow> string \<Rightarrow> student_record option" where
  "placeholder_student_parent_linkage parent_auth_id requested_student_identifier =
     linkage_loop (case map_of mock_students parent_auth_id of None \<Rightarrow> [] | Some l \<Rightarrow> l)
       requested_student_identifier"

definition mock_balances :: "(string \<times> int \<times> int) list" where
  "mock_balances = [(''12345'', 3, 3), (''67890'', 2, 3)]"

definition placeholder_leave_balance_check :: "string \<Rightarrow> string \<Rightarrow> int" where
  "placeholder_leave_balance_check student_admin_number lt =
     (let student_balance =
            (case map_of mock_balances student_admin_number of None \<Rightarrow> (0, 0) | Some b \<Rightarrow> b)
      in if lower lt = ''overnight'' then fst student_balance
         else if lower lt \<in> set [''supper'', ''fridaysupper'', ''friday_supper'']
           then snd student_balance
         else 0)"

definition closed_weekends :: "(string \<times> (datetime \<times> datetime) list) list" where
  "closed_weekends =
     [(''E'', [(datetime_of 2025 1 18, datetime_of 2025 1 19),
               (datetime_of 2025 2 22, datetime_of 2025 2 23)]),
      (''D'', [(datetime_of 2025 1 18, datetime_of 2025 1 19),
               (datetime_of 2025 2 22, datetime_of 2025 2 23)])]"

fun closed_loop :: "(datetime \<times> datetime) list \<Rightarrow> datetime \<Rightarrow> datetime \<Rightarrow> bool" where
  "closed_loop [] start_d end_d = False"
| "closed_loop ((closed_start, closed_end) # rest) start_d end_d =
     (if \<not> (dt_less end_d closed_start \<or> dt_less closed_end start_d) then True
      else closed_loop rest start_d end_d)"

definition placeholder_date_validity_check ::
  "string \<Rightarrow> datetime \<Rightarrow> datetime \<Rightarrow> date_validity" where
  "placeholder_date_validity_check student_block start_d end_d =
     (if (case map_of closed_weekends student_block of
            None \<Rightarrow> False | Some ws \<Rightarrow> closed_loop ws start_d end_d)
      then \<lparr>isValid = False,
            dv_reason = ''Falls on closed weekend for '' @ student_block
              @ '' Block (First weekend of term or weekend after half term)''\<rparr>
      else if dt_less start_d (datetime_of 2025 1 15) \<or> dt_less (datetime_of 2025 3 28) end_d
        then \<lparr>isValid = False, dv_reason = ''Dates fall outside of term dates''\<rparr>
      else \<lparr>isValid = True, dv_reason = ''''\<rparr>)"

record restriction =
  r_start :: datetime
  r_end :: datetime
  r_reason :: string

definition mock_restrictions :: "(string \<times> restriction list) list" where
  "mock_restrictions =
     [(''12345'', []),
      (''67890'', [\<lparr>r_start = datetime_of 2025 2 1, r_end = datetime_of 2025 2 28,
                    r_reason = ''Academic concerns''\<rparr>])]"

text \<open>The loop of \<^verbatim>\<open>tool_restriction_check\<close> over the restrictions of a student.\<close>

fun restriction_loop :: "restriction list \<Rightarrow> datetime \<Rightarrow> datetime \<Rightarrow> bool" where
  "restriction_loop [] start_d end_d = False"
| "restriction_loop (r # rest) start_d end_d =
     (if \<not> (dt_less end_d (r_start r) \<or> dt_less (r_end r) start_d) then True
      else restriction_loop rest start_d end_d)"

definition placeholder_restriction_check :: "string \<Rightarrow> datetime \<Rightarrow> datetime \<Rightarrow> bool" where
  "placeholder_restriction_check student_admin_number start_d end_d =
     restriction_loop
       (case map_of mock_restrictions student_admin_number of None \<Rightarrow> [] | Some l \<Rightarrow> l)
       start_d end_d"

text \<open>
  \<^verbatim>\<open>tool_leave_update\<close> of the placeholder prints what a database would record and
  returns \<^verbatim>\<open>True\<close> on each of its three paths; it changes nothing. Console output is
  not part of the model.
\<close>

definition placeholder_leave_update :: "leave_update_args \<Rightarrow> bool" where
  "placeholder_leave_update a =
     (if lu_cancellation_details a \<noteq> None then True
      else if lu_departure_timestamp a \<noteq> None then True
      else True)"

definition LeaveSystemTools :: "'s tools" where
  "LeaveSystemTools =
     \<lparr>tool_parent_phone_check = (\<lambda>p s. (placeholder_parent_phone_check p, s)),
      tool_parent_email_check = (\<lambda>e s. (placeholder_parent_email_check e, s)),
      tool_student_parent_linkage = (\<lambda>p i s. (placeholder_student_parent_linkage p i, s)),
      tool_leave_balance_check = (\<lambda>a t s. (placeholder_leave_balance_check a t, s)),
      tool_date_validity_check = (\<lambda>b st en s. (placeholder_date_validity_check b st en, s)),
      tool_restriction_check = (\<lambda>a st en s. (placeholder_restriction_check a st en, s)),
      tool_leave_update = (\<lambda>a s. (placeholder_leave_update a, s))\<rparr>"

subsection \<open>The leave processor (leave\_processor.py)\<close>

text \<open>
  A result of the processor is the dictionary it returns: the keys \<^verbatim>\<open>status\<close> and
  \<^verbatim>\<open>message\<close>, and \<^verbatim>\<open>reason\<close>, \<^verbatim>\<open>leave_request\<close> and \<^verbatim>\<open>trigger_reason\<close>
  where the path sets them. An exception a path would raise is a value of \<open>py_error\<close>.
\<close>

datatype py_error = UnboundLocalError | AttributeError

record decision =
  status :: string
  reason :: "string option"
  message :: string
  d_leave_request :: "LeaveRequest option"
  trigger_reason :: "string option"

datatype auth_result = Auth_failed string | Authenticated ParentInfo

text \<open>\<^verbatim>\<open>_authenticate_parent\<close>; an empty identifier counts as none, as \<^verbatim>\<open>not\<close> does.\<close>

definition auth_failed_message :: string where
  "auth_failed_message = ''I couldn't verify your identity. Please ensure you're using the registered contact details on file.''"

definition authenticate_parent :: "'s tools \<Rightarrow> string \<Rightarrow> string \<Rightarrow> 's \<Rightarrow> auth_result \<times> 's" where
  "authenticate_parent T identifier chan s =
     (case (if chan = ''whatsapp'' then tool_parent_phone_check T identifier s
            else if chan = ''email'' then tool_parent_email_check T identifier s
            else (None, s)) of
        (parent_auth_id, s') \<Rightarrow>
          (case parent_auth_id of
             None \<Rightarrow> (Auth_failed auth_failed_message, s')
           | Some a \<Rightarrow>
               if a = [] then (Auth_failed auth_failed_message, s')
               else (Authenticated
                      \<lparr>auth_id = a, parent_name = None,
                       phone = (if chan = ''whatsapp'' then Some identifier else None),
                       email = (if chan = ''email'' then Some identifier else None),
                       channel = chan\<rparr>, s')))"

text \<open>\<^verbatim>\<open>_reject_leave\<close>\<close>

definition reject_leave :: "LeaveRequest \<Rightarrow> string \<Rightarrow> decision" where
  "reject_leave req why =
     \<lparr>status = ''rejected'', reason = Some why,
      message = ''Thank you for your request.'' @ nl @ nl
        @ ''Unfortunately, I'm unable to approve the exeat for '' @ full_name (student req)
        @ '' on this occasion because '' @ why @ ''.'' @ nl @ nl
        @ ''If you require this leave to be granted, please contact ''
        @ full_name (student req)
        @ apostrophe @ ''s Housemaster directly to request a Special Leave.'',
      d_leave_request = Some req, trigger_reason = None\<rparr>"

text \<open>
  \<^verbatim>\<open>_route_to_special_leave\<close>. The e-mail to the housemaster is only printed; building
  its text formats both dates, which fails on a missing date.
\<close>

definition route_to_special_leave :: "LeaveRequest \<Rightarrow> string \<Rightarrow> py_error + decision" where
  "route_to_special_leave req trigger =
     (if start_date req = None \<or> end_date req = None then Inl AttributeError
      else Inr
        \<lparr>status = ''special_pending'', reason = None,
         message = ''Thank you for your request.'' @ nl @ nl
           @ ''This leave request for '' @ full_name (student req)
           @ '' requires special approval as '' @ lower trigger @ ''.'' @ nl @ nl
           @ ''I have forwarded your request to the '' @ house (student req)
           @ '' Housemaster for manual review. You will be notified once a decision has been made.''
           @ nl @ nl @ ''Thank you for your patience.'',
         d_leave_request = Some req, trigger_reason = Some trigger\<rparr>)"

text \<open>\<^verbatim>\<open>_format_approval_message\<close>\<close>

definition format_approval_message ::
  "LeaveRequest \<Rightarrow> int option \<Rightarrow> string option \<Rightarrow> py_error + string" where
  "format_approval_message req new_balance balance_type =
     (case (start_date req, end_date req) of
        (Some sd, Some ed) \<Rightarrow>
          Inr (''Thank you for submitting your request.'' @ nl @ nl
            @ ''I'm pleased to confirm that the exeat request for '' @ full_name (student req)
            @ '' for '' @ leave_type_value (leave_type req) @ '' leave has been approved.''
            @ nl @ nl
            @ ''Dates: '' @ strftime sd ''%A %d %B %Y at %H:%M'' @ '' to ''
            @ strftime ed ''%A %d %B %Y at %H:%M''
            @ (case new_balance of
                 None \<Rightarrow> []
               | Some b \<Rightarrow> nl @ nl @ ''Remaining ''
                   @ (case balance_type of None \<Rightarrow> ''None'' | Some t \<Rightarrow> t)
                   @ '' leave balance: '' @ str_of_int b))
      | _ \<Rightarrow> Inl AttributeError)"

text \<open>
  \<^verbatim>\<open>_approve_leave\<close>. The register is updated first. \<^verbatim>\<open>balance_type\<close> is assigned
  only for the overnight and Friday supper types; reading it unassigned is an
  \<^verbatim>\<open>UnboundLocalError\<close>.
\<close>

definition approve_leave ::
  "'s tools \<Rightarrow> LeaveRequest \<Rightarrow> bool \<Rightarrow> 's \<Rightarrow> (py_error + decision) \<times> 's" where
  "approve_leave T req deduct_balance s =
     (case tool_leave_update T
        \<lparr>lu_student_admin_number = admin_number (student req),
         lu_leave_type = leave_type_value (leave_type req),
         lu_start_date = start_date req, lu_end_date = end_date req,
         lu_requesting_parent = auth_id (parent req),
         lu_student_name = full_name (student req),
         lu_house = house (student req), lu_block = block (student req),
         lu_departure_timestamp = None, lu_driver_id_capture = None,
         lu_cancellation_details = None\<rparr> s of
        (success, s') \<Rightarrow>
          if \<not> success then
            (Inr \<lparr>status = ''error'', reason = None,
                  message = ''An error occurred while processing the leave. Please try again or contact the Housemaster.'',
                  d_leave_request = None, trigger_reason = None\<rparr>, s')
          else if deduct_balance \<and> leave_type req \<noteq> OVERNIGHT \<and> leave_type req \<noteq> FRIDAY_SUPPER
            then (Inl UnboundLocalError, s')
          else
            (let new_balance =
                   (if deduct_balance then
                      (if leave_type req = OVERNIGHT
                       then Some (overnight_balance (student req) - 1)
                       else Some (friday_supper_balance (student req) - 1))
                    else None);
                 balance_type =
                   (if deduct_balance then
                      (if leave_type req = OVERNIGHT then Some ''overnight''
                       else Some ''Friday Supper'')
                    else None)
             in case format_approval_message req new_balance balance_type of
                  Inl e \<Rightarrow> (Inl e, s')
                | Inr m \<Rightarrow>
                    (Inr \<lparr>status = ''approved'', reason = None, message = m,
                          d_leave_request = Some req, trigger_reason = None\<rparr>, s')))"

text \<open>\<^verbatim>\<open>_process_leave_eligibility\<close>\<close>

definition process_leave_eligibility ::
  "'s tools \<Rightarrow> LeaveRequest \<Rightarrow> 's \<Rightarrow> (py_error + decision) \<times> 's" where
  "process_leave_eligibility T req s =
     (case (start_date req, end_date req) of
        (Some sd, Some ed) \<Rightarrow>
          (case tool_date_validity_check T (block (student req)) sd ed s of
             (dv, s1) \<Rightarrow>
               if \<not> isValid dv then
                 (if str_in ''closed weekend'' (lower (dv_reason dv))
                  then (route_to_special_leave req (dv_reason dv), s1)
                  else (Inr (reject_leave req (dv_reason dv)), s1))
               else if leave_type req = OVERNIGHT \<and> weekday sd \<noteq> 5 then
                 (route_to_special_leave req
                    ''Overnight leave requested for a night other than Saturday to Sunday'', s1)
               else if leave_type req = DAY_LEAVE then approve_leave T req False s1
               else
                 (case (if leave_type req \<in> set [OVERNIGHT, FRIDAY_SUPPER, DAY_LEAVE]
                        then tool_restriction_check T (admin_number (student req)) sd ed s1
                        else (False, s1)) of
                    (is_restricted, s2) \<Rightarrow>
                      if is_restricted then
                        (Inr (reject_leave req (full_name (student req)
                           @ '' is currently restricted from weekend leave during this period'')),
                         s2)
                      else if leave_type req = OVERNIGHT then
                        (case tool_leave_balance_check T (admin_number (student req))
                                ''Overnight'' s2 of
                           (balance, s3) \<Rightarrow>
                             if balance < 1 then
                               (Inr (reject_leave req (full_name (student req)
                                  @ '' has insufficient overnight leave balance (0 remaining)'')),
                                s3)
                             else approve_leave T req True s3)
                      else if leave_type req = FRIDAY_SUPPER then
                        (case tool_leave_balance_check T (admin_number (student req))
                                ''Supper'' s2 of
                           (balance, s3) \<Rightarrow>
                             if balance < 1 then
                               (Inr (reject_leave req (full_name (student req)
                                  @ '' has insufficient Friday Supper leave balance (0 remaining)'')),
                                s3)
                             else approve_leave T req True s3)
                      else if leave_type req = SPECIAL then
                        (route_to_special_leave req ''Special leave explicitly requested'', s2)
                      else approve_leave T req True s2))
      | _ \<Rightarrow>
          (Inr \<lparr>status = ''error'', reason = Some ''missing_dates'',
                message = ''I couldn't determine the dates for this leave request. Please specify the start and end dates clearly.'',
                d_leave_request = None, trigger_reason = None\<rparr>, s))"

text \<open>
  \<^verbatim>\<open>process_parent_request\<close>. The clock reading \<open>now\<close> is the one the parser takes
  while it resolves the dates.
\<close>

definition process_parent_request ::
  "'s tools \<Rightarrow> datetime \<Rightarrow> string \<Rightarrow> string \<Rightarrow> string \<Rightarrow> 's \<Rightarrow> (py_error + decision) \<times> 's" where
  "process_parent_request T now message_text sender_identifier chan s =
     (case authenticate_parent T sender_identifier chan s of
        (Auth_failed m, s1) \<Rightarrow>
          (Inr \<lparr>status = ''rejected'', reason = Some ''authentication_failed'', message = m,
                d_leave_request = None, trigger_reason = None\<rparr>, s1)
      | (Authenticated parent_info, s1) \<Rightarrow>
          (let parsed = parse_request now message_text in
           case (case student_identifier parsed of
                   None \<Rightarrow> None | Some i \<Rightarrow> if i = [] then None else Some i) of
             None \<Rightarrow>
               (Inr \<lparr>status = ''error'', reason = Some ''parse_failed'',
                     message = ''I couldn't identify which student this request is for. Please include the student's name or admin number.'',
                     d_leave_request = None, trigger_reason = None\<rparr>, s1)
           | Some ident \<Rightarrow>
               (case tool_student_parent_linkage T (auth_id parent_info) ident s1 of
                  (None, s2) \<Rightarrow>
                    (Inr \<lparr>status = ''rejected'', reason = Some ''student_linkage_failed'',
                          message = ''I couldn't find a student matching '' @ apostrophe @ ident
                            @ apostrophe
                            @ '' linked to your account. Please check the name or admin number and try again.'',
                          d_leave_request = None, trigger_reason = None\<rparr>, s2)
                | (Some student_rec, s2) \<Rightarrow>
                    process_leave_eligibility T
                      \<lparr>student =
                         \<lparr>admin_number = adminNumber student_rec,
                          first_name = firstName student_rec,
                          last_name = lastName student_rec,
                          house = sr_house student_rec, block = sr_block student_rec,
                          overnight_balance = balances_overnight student_rec,
                          friday_supper_balance = balances_fridaySupper student_rec\<rparr>,
                       parent = parent_info,
                       leave_type = pd_leave_type parsed,
                       start_date = pd_start_date parsed,
                       end_date = pd_end_date parsed,
                       lr_status = PENDING, rejection_reason = None,
                       special_leave_reason = None, housemaster_notes = None\<rparr> s2)))"

text \<open>
  A terminal decision: its status is one of the four the processor uses and its message
  is not empty. \<open>returns_terminal\<close> says that a run of the processor raised nothing
  and returned such a decision.
\<close>

definition terminal :: "decision \<Rightarrow> bool" where
  "terminal d = (status d \<in> set [''approved'', ''rejected'', ''special_pending'', ''error'']
     \<and> message d \<noteq> [])"

fun returns_terminal :: "(py_error + decision) \<times> 's \<Rightarrow> bool" where
  "returns_terminal (Inl e, s) = False"
| "returns_terminal (Inr d, s) = terminal d"

section \<open>Properties\<close>

subsection \<open>Strings\<close>

lemma startswith_iff: "startswith t s \<longleftrightarrow> (\<exists>r. t = s @ r)"
  by (induction t s rule: startswith.induct) auto

lemma str_in_iff: "str_in s t \<longleftrightarrow> (\<exists>p r. t = p @ s @ r)"
proof (induction t)
  case Nil
  then show ?case by auto
next
  case (Cons d t)
  show ?case
  proof
    assume "str_in s (d # t)"
    then consider "startswith (d # t) s" | "str_in s t" by auto
    then show "\<exists>p r. d # t = p @ s @ r"
    proof cases
      case 1
      then obtain r where "d # t = s @ r" by (auto simp: startswith_iff)
      then have "d # t = [] @ s @ r" by simp
      then show ?thesis by blast
    next
      case 2
      then obtain p r where "t = p @ s @ r" using Cons.IH by blast
      then have "d # t = (d # p) @ s @ r" by simp
      then show ?thesis by blast
    qed
  next
    assume "\<exists>p r. d # t = p @ s @ r"
    then obtain p r where eq: "d # t = p @ s @ r" by blast
    show "str_in s (d # t)"
    proof (cases p)
      case Nil
      with eq have "startswith (d # t) s" by (auto simp: startswith_iff)
      then show ?thesis by simp
    next
      case (Cons e q)
      with eq have "t = q @ s @ r" by simp
      then have "str_in s t" using Cons.IH by blast
      then show ?thesis by simp
    qed
  qed
qed

subsection \<open>Category determination\<close>

text \<open>
  Claim C10. Category determination evaluates a fixed priority order: special-leave
  keywords, then overnight keywords, then Friday-supper keywords, then day-leave
  keywords, then any mention of weekend, Saturday or Sunday (giving day leave), and
  otherwise overnight; the first match is returned. So a text with both an overnight
  indicator and a day-leave indicator (and no higher-priority special indicator) is
  overnight, and a text matching no rule is overnight.
\<close>

theorem determine_leave_type_priority:
  "determine_leave_type text = first_match spec_category_rules OVERNIGHT text
   \<and> (\<not> any_in SPECIAL_INDICATORS text \<and> any_in OVERNIGHT_INDICATORS text
        \<and> any_in DAY_LEAVE_INDICATORS text \<longrightarrow> determine_leave_type text = OVERNIGHT)
   \<and> ((\<forall>(p, r) \<in> set spec_category_rules. \<not> p text)
        \<longrightarrow> determine_leave_type text = OVERNIGHT)"
  by (auto simp: determine_leave_type_def spec_category_rules_def)

theorem determine_leave_type_priority_witness:
  "\<not> any_in SPECIAL_INDICATORS ''day leave, maybe overnight''
   \<and> any_in OVERNIGHT_INDICATORS ''day leave, maybe overnight''
   \<and> any_in DAY_LEAVE_INDICATORS ''day leave, maybe overnight''
   \<and> determine_leave_type ''day leave, maybe overnight'' = OVERNIGHT
   \<and> list_all (\<lambda>(p, r). \<not> p ''can james go out'') spec_category_rules
   \<and> determine_leave_type ''can james go out'' = OVERNIGHT"
proof -
  have a: "\<not> any_in SPECIAL_INDICATORS ''day leave, maybe overnight''"
    by (simp add: SPECIAL_INDICATORS_def)
  have b: "any_in OVERNIGHT_INDICATORS ''day leave, maybe overnight''"
    by (simp add: OVERNIGHT_INDICATORS_def)
  have c: "any_in DAY_LEAVE_INDICATORS ''day leave, maybe overnight''"
    by (simp add: DAY_LEAVE_INDICATORS_def)
  have d: "\<forall>(p, r) \<in> set spec_category_rules. \<not> p ''can james go out''"
    by (simp add: spec_category_rules_def SPECIAL_INDICATORS_def OVERNIGHT_INDICATORS_def
        SUPPER_INDICATORS_def DAY_LEAVE_INDICATORS_def)
  have e: "list_all (\<lambda>(p, r). \<not> p ''can james go out'') spec_category_rules"
    using d by (simp add: list_all_iff)
  from a b c d e determine_leave_type_priority [of "''day leave, maybe overnight''"]
    determine_leave_type_priority [of "''can james go out''"]
  show ?thesis by blast
qed

subsection \<open>Dates\<close>

lemma weekday_range: "0 \<le> weekday d \<and> weekday d < 7"
  by (simp add: weekday_def)

lemma weekday_replace_midnight [simp]: "weekday (replace_midnight d) = weekday d"
  by (simp add: weekday_def replace_midnight_def)

lemma infer_date_range_times:
  "(case infer_date_range b lt of (s, e) \<Rightarrow> (hour s, minute s, hour e, minute e))
     \<in> {(14, 0, 18, 50), (17, 0, 21, 0), (9, 0, 17, 0)}"
  by (simp add: infer_date_range_def replace_hm_def add_days_def)

lemma infer_date_range_overnight_times:
  "infer_date_range b OVERNIGHT = (s, e) \<Longrightarrow>
     (hour s, minute s, hour e, minute e) \<in> {(14, 0, 18, 50), (9, 0, 17, 0)}"
  by (auto simp: infer_date_range_def replace_hm_def add_days_def split: if_splits)

lemma single_date_loop_overnight_times:
  "single_date_loop now ps text OVERNIGHT = (Some s, Some e) \<Longrightarrow>
     (hour s, minute s, hour e, minute e) \<in> {(14, 0, 18, 50), (9, 0, 17, 0)}"
proof (induction ps)
  case Nil
  then show ?case by simp
next
  case (Cons p ps)
  show ?case
  proof (cases "group1 (re_search True p text)")
    case None
    with Cons show ?thesis by simp
  next
    case (Some date_str)
    show ?thesis
    proof (cases "parse_relative_date now date_str")
      case None
      with Some Cons show ?thesis by simp
    next
      case (Some base_date)
      obtain s' e' where r: "infer_date_range base_date OVERNIGHT = (s', e')"
        by (cases "infer_date_range base_date OVERNIGHT") auto
      with Some \<open>group1 (re_search True p text) = Some date_str\<close> Cons.prems
      have "s = s'" "e = e'" by simp_all
      with infer_date_range_overnight_times [OF r] show ?thesis by simp
    qed
  qed
qed

text \<open>
  Claim C4, as amended. Expanding a base date for the overnight category gives the start
  at 14:00 on the base date and the end at 18:50 on the next day when the base date is a
  Saturday; on any other weekday the guarded branch is skipped and the window is the
  default, 09:00 to 17:00 on the base date itself. For an explicit range the start date
  gets 14:00 and the end date 18:50. In every case the time of day of an overnight window
  the parser extracts is one of these two templates, whatever the text says.
\<close>

theorem overnight_window_template:
  "(weekday base_date = 5 \<longrightarrow>
      infer_date_range base_date OVERNIGHT =
        (base_date\<lparr>hour := 14, minute := 0\<rparr>,
         base_date\<lparr>ordinal := ordinal base_date + 1, hour := 18, minute := 50\<rparr>))
   \<and> (weekday base_date \<noteq> 5 \<longrightarrow>
      infer_date_range base_date OVERNIGHT =
        (base_date\<lparr>hour := 9, minute := 0\<rparr>, base_date\<lparr>hour := 17, minute := 0\<rparr>))
   \<and> apply_leave_times (Some first_date) (Some second_date) OVERNIGHT =
        (Some (first_date\<lparr>hour := 14, minute := 0\<rparr>), Some (second_date\<lparr>hour := 18, minute := 50\<rparr>))
   \<and> (extract_dates now text OVERNIGHT = (Some s, Some e) \<longrightarrow>
        (hour s, minute s, hour e, minute e) \<in> {(14, 0, 18, 50), (9, 0, 17, 0)})"
proof (intro conjI impI)
  show "infer_date_range base_date OVERNIGHT =
        (base_date\<lparr>hour := 14, minute := 0\<rparr>,
         base_date\<lparr>ordinal := ordinal base_date + 1, hour := 18, minute := 50\<rparr>)"
    if "weekday base_date = 5"
    using that by (simp add: infer_date_range_def replace_hm_def add_days_def)
  show "infer_date_range base_date OVERNIGHT =
        (base_date\<lparr>hour := 9, minute := 0\<rparr>, base_date\<lparr>hour := 17, minute := 0\<rparr>)"
    if "weekday base_date \<noteq> 5"
    using that by (simp add: infer_date_range_def replace_hm_def)
  show "apply_leave_times (Some first_date) (Some second_date) OVERNIGHT =
        (Some (first_date\<lparr>hour := 14, minute := 0\<rparr>), Some (second_date\<lparr>hour := 18, minute := 50\<rparr>))"
    by (simp add: replace_hm_def)
  show "(hour s, minute s, hour e, minute e) \<in> {(14, 0, 18, 50), (9, 0, 17, 0)}"
    if h: "extract_dates now text OVERNIGHT = (Some s, Some e)"
  proof (cases "\<exists>a b r. re_search False date_range_pattern text = Some (a # b # r)")
    case True
    then obtain a b r where m: "re_search False date_range_pattern text = Some (a # b # r)"
      by blast
    with h have "apply_leave_times (parse_date_string a) (parse_date_string b) OVERNIGHT
        = (Some s, Some e)"
      by (simp add: extract_dates_def)
    then show ?thesis
      by (cases "parse_date_string a"; cases "parse_date_string b")
        (auto simp: replace_hm_def)
  next
    case False
    with h have "single_date_loop now DATE_PATTERNS text OVERNIGHT = (Some s, Some e)"
      by (auto simp: extract_dates_def split: option.splits list.splits)
    then show ?thesis by (rule single_date_loop_overnight_times)
  qed
qed

theorem overnight_window_template_witness:
  "weekday \<lparr>ordinal = 739290, hour = 0, minute = 0, second = 0, microsecond = 0\<rparr> = 5
   \<and> infer_date_range \<lparr>ordinal = 739290, hour = 0, minute = 0, second = 0, microsecond = 0\<rparr> OVERNIGHT
       = (\<lparr>ordinal = 739290, hour = 14, minute = 0, second = 0, microsecond = 0\<rparr>,
          \<lparr>ordinal = 739291, hour = 18, minute = 50, second = 0, microsecond = 0\<rparr>)
   \<and> weekday \<lparr>ordinal = 739293, hour = 0, minute = 0, second = 0, microsecond = 0\<rparr> \<noteq> 5
   \<and> infer_date_range \<lparr>ordinal = 739293, hour = 0, minute = 0, second = 0, microsecond = 0\<rparr> OVERNIGHT
       = (\<lparr>ordinal = 739293, hour = 9, minute = 0, second = 0, microsecond = 0\<rparr>,
          \<lparr>ordinal = 739293, hour = 17, minute = 0, second = 0, microsecond = 0\<rparr>)"
proof -
  let ?sat = "\<lparr>ordinal = 739290, hour = 0, minute = 0, second = 0, microsecond = 0\<rparr>"
  let ?tue = "\<lparr>ordinal = 739293, hour = 0, minute = 0, second = 0, microsecond = 0\<rparr>"
  have a: "weekday ?sat = 5" by (simp add: weekday_def)
  have b: "weekday ?tue \<noteq> 5" by (simp add: weekday_def)
  from a b overnight_window_template [of ?sat] overnight_window_template [of ?tue]
  show ?thesis by simp
qed

text \<open>
  The claim as stated, for every base date of any weekday, fails on a Tuesday
  (11 February 2025): the window is 09:00 to 17:00 on that day, not 14:00 to 18:50 on
  the next.
\<close>

theorem overnight_any_weekday_counterexample:
  "weekday \<lparr>ordinal = 739293, hour = 0, minute = 0, second = 0, microsecond = 0\<rparr> = 1
   \<and> infer_date_range \<lparr>ordinal = 739293, hour = 0, minute = 0, second = 0, microsecond = 0\<rparr> OVERNIGHT
       = (\<lparr>ordinal = 739293, hour = 9, minute = 0, second = 0, microsecond = 0\<rparr>,
          \<lparr>ordinal = 739293, hour = 17, minute = 0, second = 0, microsecond = 0\<rparr>)
   \<and> infer_date_range \<lparr>ordinal = 739293, hour = 0, minute = 0, second = 0, microsecond = 0\<rparr> OVERNIGHT
       \<noteq> (\<lparr>ordinal = 739293, hour = 14, minute = 0, second = 0, microsecond = 0\<rparr>,
          \<lparr>ordinal = 739294, hour = 18, minute = 50, second = 0, microsecond = 0\<rparr>)"
  by (simp add: weekday_def infer_date_range_def replace_hm_def add_days_def)

subsection \<open>Weekday names\<close>

lemma days_ahead_plain:
  assumes "\<not> str_in ''next'' s" "\<not> str_in ''this'' s" "0 \<le> d" "d < 7" "0 \<le> w" "w < 7"
  shows "days_ahead_for s d w = (d - w) mod 7"
  using assms unfolding days_ahead_for_def Let_def by (simp split: if_splits) presburger

lemma days_ahead_this:
  assumes "\<not> str_in ''next'' s" "str_in ''this'' s" "0 \<le> d" "d < 7" "0 \<le> w" "w < 7"
  shows "days_ahead_for s d w = (d - w - 1) mod 7 + 1"
  using assms unfolding days_ahead_for_def Let_def by (simp split: if_splits) presburger

lemma days_ahead_next:
  assumes "str_in ''next'' s"
  shows "days_ahead_for s d w = d - w + 7"
  using assms unfolding days_ahead_for_def Let_def by simp

lemma names_plain: "list_all (name_resolves [] today) weekdays"
  by (simp add: weekdays_def name_resolves_def)

lemma names_this: "list_all (name_resolves ''this '' today) weekdays"
  by (simp add: weekdays_def name_resolves_def)

lemma names_next: "list_all (name_resolves ''next '' today) weekdays"
  by (simp add: weekdays_def name_resolves_def)

lemma name_resolvesD:
  assumes "list_all (name_resolves q today) weekdays" "(day_name, day_num) \<in> set weekdays"
  shows "\<not> str_in ''today'' (q @ day_name)" "\<not> str_in ''tomorrow'' (q @ day_name)"
    "weekday_loop weekdays (q @ day_name) today =
         Some (add_days today (days_ahead_for (q @ day_name) day_num (weekday today)))"
    "str_in ''this'' (q @ day_name) = (q = ''this '')"
    "str_in ''next'' (q @ day_name) = (q = ''next '')"
    "0 \<le> day_num" "day_num < 7"
  using assms by (auto simp: list_all_iff name_resolves_def)

lemma parse_relative_date_name:
  assumes "list_all (name_resolves q (replace_midnight now)) weekdays"
    "(day_name, day_num) \<in> set weekdays" "lower date_str = q @ day_name"
  shows "parse_relative_date now date_str =
     Some (add_days (replace_midnight now) (days_ahead_for (q @ day_name) day_num (weekday now)))"
  using name_resolvesD(1-3) [OF assms(1,2)] assms(3)
  by (simp add: parse_relative_date_def)

text \<open>
  Claim C5, as amended. For a weekday name with number \<open>day_num\<close> (Monday is 0) and a
  reference day of weekday \<open>w\<close>: with no qualifier the expression resolves to the next
  occurrence of that weekday on or after the reference day, the reference day itself when
  it is that weekday; with "this" it resolves to the next occurrence strictly after the
  reference day, so seven days later when the reference day is that weekday; with "next"
  it resolves to \<open>day_num - w + 7\<close> days after the reference day, which is seven days
  after the occurrence on or after the reference day only when the named weekday is not
  earlier in the week than the reference day.
\<close>

theorem parse_relative_date_weekday_name:
  assumes "(day_name, day_num) \<in> set weekdays"
  shows "(lower date_str = day_name \<longrightarrow>
           parse_relative_date now date_str =
             Some (add_days (replace_midnight now) ((day_num - weekday now) mod 7)))
       \<and> (lower date_str = ''this '' @ day_name \<longrightarrow>
           parse_relative_date now date_str =
             Some (add_days (replace_midnight now) ((day_num - weekday now - 1) mod 7 + 1)))
       \<and> (lower date_str = ''next '' @ day_name \<longrightarrow>
           parse_relative_date now date_str =
             Some (add_days (replace_midnight now) (day_num - weekday now + 7)))"
proof (intro conjI impI)
  let ?today = "replace_midnight now"
  note w = weekday_range [of now]
  show "parse_relative_date now date_str =
      Some (add_days ?today ((day_num - weekday now) mod 7))"
    if l: "lower date_str = day_name"
  proof -
    note f = name_resolvesD [OF names_plain [of ?today] assms]
    have "days_ahead_for day_name day_num (weekday now) = (day_num - weekday now) mod 7"
      using f(4-7) w by (intro days_ahead_plain) simp_all
    with parse_relative_date_name [OF names_plain assms, of date_str] l
    show ?thesis by simp
  qed
  show "parse_relative_date now date_str =
      Some (add_days ?today ((day_num - weekday now - 1) mod 7 + 1))"
    if l: "lower date_str = ''this '' @ day_name"
  proof -
    note f = name_resolvesD [OF names_this [of ?today] assms]
    have "days_ahead_for (''this '' @ day_name) day_num (weekday now)
        = (day_num - weekday now - 1) mod 7 + 1"
      using f(4-7) w by (intro days_ahead_this) simp_all
    with parse_relative_date_name [OF names_this assms, of date_str] l
    show ?thesis by simp
  qed
  show "parse_relative_date now date_str =
      Some (add_days ?today (day_num - weekday now + 7))"
    if l: "lower date_str = ''next '' @ day_name"
  proof -
    note f = name_resolvesD [OF names_next [of ?today] assms]
    have "days_ahead_for (''next '' @ day_name) day_num (weekday now)
        = day_num - weekday now + 7"
      using f(5) by (intro days_ahead_next) simp
    with parse_relative_date_name [OF names_next assms, of date_str] l
    show ?thesis by simp
  qed
qed

theorem parse_relative_date_weekday_name_witness:
  "(''saturday'', 5) \<in> set weekdays
   \<and> lower ''This Saturday'' = ''this '' @ ''saturday''
   \<and> weekday \<lparr>ordinal = 739288, hour = 10, minute = 30, second = 0, microsecond = 0\<rparr> = 3
   \<and> parse_relative_date
        \<lparr>ordinal = 739288, hour = 10, minute = 30, second = 0, microsecond = 0\<rparr> ''This Saturday''
       = Some \<lparr>ordinal = 739290, hour = 0, minute = 0, second = 0, microsecond = 0\<rparr>"
proof -
  let ?now = "\<lparr>ordinal = 739288, hour = 10, minute = 30, second = 0, microsecond = 0\<rparr>"
  have m: "(''saturday'', 5) \<in> set weekdays" by (simp add: weekdays_def)
  have l: "lower ''This Saturday'' = ''this '' @ ''saturday''" by code_simp
  have w: "weekday ?now = 3" by (simp add: weekday_def)
  from parse_relative_date_weekday_name [OF m, of "''This Saturday''" ?now] l
  have "parse_relative_date ?now ''This Saturday''
      = Some (add_days (replace_midnight ?now) ((5 - weekday ?now - 1) mod 7 + 1))"
    by blast
  with m l w show ?thesis by (simp add: add_days_def replace_midnight_def)
qed

text \<open>
  The claim as stated fails twice. On Saturday 8 February 2025 "this saturday" is
  15 February, not the reference day. On Sunday 9 February 2025 the next Saturday on or
  after the reference day is 15 February, and "next saturday" is that same day, not
  seven days later.
\<close>

theorem parse_relative_date_weekday_counterexample:
  "weekday \<lparr>ordinal = 739290, hour = 10, minute = 30, second = 0, microsecond = 0\<rparr> = 5
   \<and> parse_relative_date
        \<lparr>ordinal = 739290, hour = 10, minute = 30, second = 0, microsecond = 0\<rparr> ''this saturday''
       = Some \<lparr>ordinal = 739297, hour = 0, minute = 0, second = 0, microsecond = 0\<rparr>
   \<and> weekday \<lparr>ordinal = 739291, hour = 10, minute = 30, second = 0, microsecond = 0\<rparr> = 6
   \<and> parse_relative_date
        \<lparr>ordinal = 739291, hour = 10, minute = 30, second = 0, microsecond = 0\<rparr> ''saturday''
       = Some \<lparr>ordinal = 739297, hour = 0, minute = 0, second = 0, microsecond = 0\<rparr>
   \<and> parse_relative_date
        \<lparr>ordinal = 739291, hour = 10, minute = 30, second = 0, microsecond = 0\<rparr> ''next saturday''
       = Some \<lparr>ordinal = 739297, hour = 0, minute = 0, second = 0, microsecond = 0\<rparr>"
  by code_simp

subsection \<open>Window order\<close>

lemma infer_date_range_ordered:
  "infer_date_range b lt = (s, e) \<Longrightarrow> dt_less s e"
  by (auto simp: infer_date_range_def replace_hm_def add_days_def dt_less_def split: if_splits)

lemma single_date_loop_ordered:
  "single_date_loop now ps text lt = (Some s, Some e) \<Longrightarrow> dt_less s e"
proof (induction ps)
  case Nil
  then show ?case by simp
next
  case (Cons p ps)
  show ?case
  proof (cases "group1 (re_search True p text)")
    case None
    with Cons show ?thesis by simp
  next
    case (Some date_str)
    show ?thesis
    proof (cases "parse_relative_date now date_str")
      case None
      with Some Cons show ?thesis by simp
    next
      case (Some base_date)
      obtain s' e' where r: "infer_date_range base_date lt = (s', e')"
        by (cases "infer_date_range base_date lt") auto
      with Some \<open>group1 (re_search True p text) = Some date_str\<close> Cons.prems
      have "s = s'" "e = e'" by simp_all
      with infer_date_range_ordered [OF r] show ?thesis by simp
    qed
  qed
qed

lemma mk_datetime_midnight:
  "mk_datetime y m d 0 0 = Some t \<Longrightarrow> hour t = 0 \<and> minute t = 0 \<and> second t = 0 \<and> microsecond t = 0"
  by (auto simp: mk_datetime_def split: if_splits)

lemma strptime_midnight:
  "strptime date_str fmt = Some t \<Longrightarrow> hour t = 0 \<and> minute t = 0 \<and> second t = 0 \<and> microsecond t = 0"
  unfolding strptime_def
  by (auto split: list.splits if_splits prod.splits dest: mk_datetime_midnight)

lemma try_formats_midnight:
  "try_formats date_str fmts = Some t \<Longrightarrow> hour t = 0 \<and> minute t = 0 \<and> second t = 0 \<and> microsecond t = 0"
  by (induction fmts) (auto split: option.splits dest: strptime_midnight)

lemma parse_date_string_midnight:
  "parse_date_string date_str = Some t \<Longrightarrow> hour t = 0 \<and> minute t = 0 \<and> second t = 0 \<and> microsecond t = 0"
  unfolding parse_date_string_def by (rule try_formats_midnight)

lemma apply_leave_times_ordered:
  assumes "apply_leave_times (Some d1) (Some d2) lt = (Some s, Some e)"
    "hour d1 = 0 \<and> minute d1 = 0 \<and> second d1 = 0 \<and> microsecond d1 = 0"
    "hour d2 = 0 \<and> minute d2 = 0 \<and> second d2 = 0 \<and> microsecond d2 = 0"
  shows "dt_less s e \<longleftrightarrow> (if lt = SPECIAL then ordinal d1 < ordinal d2 else ordinal d1 \<le> ordinal d2)"
  using assms by (cases lt) (auto simp: replace_hm_def dt_less_def)

text \<open>
  Claim C6, as amended. A window that request parsing takes from a single resolved date
  has its start before its end. A window taken from an explicit range of two dates is
  not checked for order: for the overnight, Friday supper and day leave categories its
  start is before its end exactly when the first date is not after the second, and for
  the special category (no time of day is applied) exactly when the first date is before
  the second.
\<close>

theorem extract_dates_window_order:
  assumes "extract_dates now text lt = (Some s, Some e)"
  shows "case re_search False date_range_pattern text of
           Some (start_str # end_str # _) \<Rightarrow>
             (\<exists>d1 d2. parse_date_string start_str = Some d1 \<and> parse_date_string end_str = Some d2
                \<and> dt_less s e = (if lt = SPECIAL then ordinal d1 < ordinal d2
                                 else ordinal d1 \<le> ordinal d2))
         | _ \<Rightarrow> dt_less s e"
proof (cases "\<exists>a b r. re_search False date_range_pattern text = Some (a # b # r)")
  case True
  then obtain a b r where m: "re_search False date_range_pattern text = Some (a # b # r)"
    by blast
  with assms have h: "apply_leave_times (parse_date_string a) (parse_date_string b) lt
      = (Some s, Some e)"
    by (simp add: extract_dates_def)
  then obtain d1 d2 where p: "parse_date_string a = Some d1" "parse_date_string b = Some d2"
    by (cases "parse_date_string a"; cases "parse_date_string b") auto
  from h p apply_leave_times_ordered [OF _ parse_date_string_midnight [OF p(1)]
      parse_date_string_midnight [OF p(2)], of lt s e]
  have "dt_less s e = (if lt = SPECIAL then ordinal d1 < ordinal d2
                       else ordinal d1 \<le> ordinal d2)"
    by simp
  with m p show ?thesis by simp
next
  case False
  with assms have "single_date_loop now DATE_PATTERNS text lt = (Some s, Some e)"
    by (auto simp: extract_dates_def split: option.splits list.splits)
  then have "dt_less s e" by (rule single_date_loop_ordered)
  with False show ?thesis by (auto split: option.splits list.splits)
qed

theorem extract_dates_window_order_witness:
  "extract_dates \<lparr>ordinal = 739288, hour = 10, minute = 30, second = 0, microsecond = 0\<rparr>
       ''overnight leave this saturday'' OVERNIGHT
     = (Some \<lparr>ordinal = 739290, hour = 14, minute = 0, second = 0, microsecond = 0\<rparr>,
        Some \<lparr>ordinal = 739291, hour = 18, minute = 50, second = 0, microsecond = 0\<rparr>)
   \<and> re_search False date_range_pattern ''overnight leave this saturday'' = None
   \<and> dt_less \<lparr>ordinal = 739290, hour = 14, minute = 0, second = 0, microsecond = 0\<rparr>
        \<lparr>ordinal = 739291, hour = 18, minute = 50, second = 0, microsecond = 0\<rparr>"
proof -
  let ?now = "\<lparr>ordinal = 739288, hour = 10, minute = 30, second = 0, microsecond = 0\<rparr>"
  have a: "extract_dates ?now ''overnight leave this saturday'' OVERNIGHT
     = (Some \<lparr>ordinal = 739290, hour = 14, minute = 0, second = 0, microsecond = 0\<rparr>,
        Some \<lparr>ordinal = 739291, hour = 18, minute = 50, second = 0, microsecond = 0\<rparr>)"
    by code_simp
  have b: "re_search False date_range_pattern ''overnight leave this saturday'' = None"
    by code_simp
  from extract_dates_window_order [OF a] a b show ?thesis by simp
qed

text \<open>
  The claim as stated fails on a range written backwards: the window of
  "20/02/2025 to 15/02/2025" starts on 20 February at 14:00 and ends on 15 February at
  18:50.
\<close>

theorem extract_dates_window_order_counterexample:
  "extract_dates \<lparr>ordinal = 739288, hour = 10, minute = 30, second = 0, microsecond = 0\<rparr>
       ''overnight leave for 12345 from 20/02/2025 to 15/02/2025'' OVERNIGHT
     = (Some \<lparr>ordinal = 739302, hour = 14, minute = 0, second = 0, microsecond = 0\<rparr>,
        Some \<lparr>ordinal = 739297, hour = 18, minute = 50, second = 0, microsecond = 0\<rparr>)
   \<and> \<not> dt_less \<lparr>ordinal = 739302, hour = 14, minute = 0, second = 0, microsecond = 0\<rparr>
        \<lparr>ordinal = 739297, hour = 18, minute = 50, second = 0, microsecond = 0\<rparr>"
  by code_simp

subsection \<open>The clock\<close>

lemma parse_relative_date_clock:
  "replace_midnight now = replace_midnight now' \<Longrightarrow>
     parse_relative_date now date_str = parse_relative_date now' date_str"
  by (simp add: parse_relative_date_def)

lemma single_date_loop_clock:
  assumes "replace_midnight now = replace_midnight now'"
  shows "single_date_loop now ps text lt = single_date_loop now' ps text lt"
proof -
  have eq: "parse_relative_date now d = parse_relative_date now' d" for d
    using assms by (rule parse_relative_date_clock)
  show ?thesis
    by (induction ps) (simp_all add: eq split: option.splits)
qed

text \<open>
  Claim C9, as amended. The relative date keywords are resolved against the clock, read
  when the expression is parsed: the parser takes no reference time from its caller.
  "today" is the clock's day at midnight and "tomorrow" the day after. The result
  depends on the text and on the calendar day of the clock reading only, so two runs on
  the same text whose clock readings fall on the same day give the same result.
\<close>

theorem parse_request_clock:
  "(lower date_str = ''today'' \<longrightarrow> parse_relative_date now date_str = Some (replace_midnight now))
   \<and> (lower date_str = ''tomorrow'' \<longrightarrow>
        parse_relative_date now date_str = Some (add_days (replace_midnight now) 1))
   \<and> (ordinal now = ordinal now' \<longrightarrow> parse_request now text = parse_request now' text)"
proof (intro conjI impI)
  show "parse_relative_date now date_str = Some (replace_midnight now)"
    if "lower date_str = ''today''"
    using that by (simp add: parse_relative_date_def)
  show "parse_relative_date now date_str = Some (add_days (replace_midnight now) 1)"
    if "lower date_str = ''tomorrow''"
    using that by (simp add: parse_relative_date_def)
  show "parse_request now text = parse_request now' text" if "ordinal now = ordinal now'"
  proof -
    have "replace_midnight now = replace_midnight now'"
      using that by (simp add: replace_midnight_def datetime.equality)
    then have "single_date_loop now ps t lt = single_date_loop now' ps t lt" for ps t lt
      by (rule single_date_loop_clock)
    then have "extract_dates now t lt = extract_dates now' t lt" for t lt
      by (simp add: extract_dates_def split: option.splits list.splits)
    then show ?thesis by (simp add: parse_request_def)
  qed
qed

theorem parse_request_clock_witness:
  "lower ''Today'' = ''today''
   \<and> parse_relative_date \<lparr>ordinal = 739288, hour = 10, minute = 30, second = 0, microsecond = 0\<rparr>
        ''Today''
       = Some \<lparr>ordinal = 739288, hour = 0, minute = 0, second = 0, microsecond = 0\<rparr>
   \<and> parse_request \<lparr>ordinal = 739288, hour = 10, minute = 30, second = 0, microsecond = 0\<rparr>
        ''day leave for James today''
       = parse_request \<lparr>ordinal = 739288, hour = 23, minute = 59, second = 0, microsecond = 0\<rparr>
        ''day leave for James today''"
proof -
  let ?a = "\<lparr>ordinal = 739288, hour = 10, minute = 30, second = 0, microsecond = 0\<rparr>"
  let ?b = "\<lparr>ordinal = 739288, hour = 23, minute = 59, second = 0, microsecond = 0\<rparr>"
  have l: "lower ''Today'' = ''today''" by code_simp
  have o: "ordinal ?a = ordinal ?b" by simp
  from parse_request_clock [of "''Today''" ?a ?b "''day leave for James today''"] l o
  show ?thesis by (simp add: replace_midnight_def)
qed

text \<open>
  The claim as stated, that two runs on the same inputs give the same result, fails for
  the inputs the parser has: the same message parsed on Thursday 6 February 2025 and on
  Friday 7 February 2025 gives two different windows.
\<close>

theorem parse_request_clock_counterexample:
  "pd_start_date (parse_request
       \<lparr>ordinal = 739288, hour = 10, minute = 30, second = 0, microsecond = 0\<rparr>
       ''day leave for James today'')
     = Some \<lparr>ordinal = 739288, hour = 9, minute = 0, second = 0, microsecond = 0\<rparr>
   \<and> pd_start_date (parse_request
       \<lparr>ordinal = 739289, hour = 10, minute = 30, second = 0, microsecond = 0\<rparr>
       ''day leave for James today'')
     = Some \<lparr>ordinal = 739289, hour = 9, minute = 0, second = 0, microsecond = 0\<rparr>
   \<and> parse_request \<lparr>ordinal = 739288, hour = 10, minute = 30, second = 0, microsecond = 0\<rparr>
       ''day leave for James today''
     \<noteq> parse_request \<lparr>ordinal = 739289, hour = 10, minute = 30, second = 0, microsecond = 0\<rparr>
       ''day leave for James today''"
proof -
  have a: "pd_start_date (parse_request
       \<lparr>ordinal = 739288, hour = 10, minute = 30, second = 0, microsecond = 0\<rparr>
       ''day leave for James today'')
     = Some \<lparr>ordinal = 739288, hour = 9, minute = 0, second = 0, microsecond = 0\<rparr>"
    by code_simp
  have b: "pd_start_date (parse_request
       \<lparr>ordinal = 739289, hour = 10, minute = 30, second = 0, microsecond = 0\<rparr>
       ''day leave for James today'')
     = Some \<lparr>ordinal = 739289, hour = 9, minute = 0, second = 0, microsecond = 0\<rparr>"
    by code_simp
  from a b show ?thesis by auto
qed

subsection \<open>Every run ends in a decision\<close>

lemma reject_leave_terminal: "terminal (reject_leave req why)"
  by (simp add: terminal_def reject_leave_def)

lemma route_to_special_leave_terminal:
  assumes "start_date req = Some sd" "end_date req = Some ed"
  shows "returns_terminal (route_to_special_leave req trigger, s)"
  using assms by (simp add: terminal_def route_to_special_leave_def)

lemma format_approval_message_nonempty:
  assumes "start_date req = Some sd" "end_date req = Some ed"
  shows "\<exists>m. format_approval_message req nb bt = Inr m \<and> m \<noteq> []"
  using assms by (simp add: format_approval_message_def)

lemma approve_leave_terminal:
  assumes "start_date req = Some sd" "end_date req = Some ed"
    "deduct \<longrightarrow> leave_type req = OVERNIGHT \<or> leave_type req = FRIDAY_SUPPER"
  shows "returns_terminal (approve_leave T req deduct s)"
proof -
  obtain ok s' where u: "tool_leave_update T
        \<lparr>lu_student_admin_number = admin_number (student req),
         lu_leave_type = leave_type_value (leave_type req),
         lu_start_date = start_date req, lu_end_date = end_date req,
         lu_requesting_parent = auth_id (parent req),
         lu_student_name = full_name (student req),
         lu_house = house (student req), lu_block = block (student req),
         lu_departure_timestamp = None, lu_driver_id_capture = None,
         lu_cancellation_details = None\<rparr> s = (ok, s')"
    by (meson surj_pair)
  obtain m where m: "\<And>nb bt. \<exists>m. format_approval_message req nb bt = Inr m \<and> m \<noteq> []"
    using format_approval_message_nonempty [OF assms(1,2)] by blast
  show ?thesis
  proof (cases ok)
    case False
    with u show ?thesis by (simp add: approve_leave_def terminal_def)
  next
    case True
    let ?nb = "if deduct then (if leave_type req = OVERNIGHT
                       then Some (overnight_balance (student req) - 1)
                       else Some (friday_supper_balance (student req) - 1)) else None"
    let ?bt = "if deduct then (if leave_type req = OVERNIGHT then Some ''overnight''
                       else Some ''Friday Supper'') else None"
    obtain msg where "format_approval_message req ?nb ?bt = Inr msg" "msg \<noteq> []"
      using m by blast
    with True u assms(3) show ?thesis
      by (auto simp: approve_leave_def terminal_def Let_def)
  qed
qed

lemma process_leave_eligibility_terminal:
  "returns_terminal (process_leave_eligibility T req s)"
proof (cases "\<exists>sd ed. start_date req = Some sd \<and> end_date req = Some ed")
  case False
  then show ?thesis
    by (auto simp: process_leave_eligibility_def terminal_def split: option.splits)
next
  case True
  then obtain sd ed where d: "start_date req = Some sd" "end_date req = Some ed" by blast
  note r = route_to_special_leave_terminal [OF d]
  note a = approve_leave_terminal [OF d]
  obtain dv s1 where v: "tool_date_validity_check T (block (student req)) sd ed s = (dv, s1)"
    by (meson surj_pair)
  show ?thesis
  proof (cases "leave_type req")
    case OVERNIGHT
    obtain rs s2 where c: "tool_restriction_check T (admin_number (student req)) sd ed s1 = (rs, s2)"
      by (meson surj_pair)
    obtain b s3 where b: "tool_leave_balance_check T (admin_number (student req)) ''Overnight'' s2 = (b, s3)"
      by (meson surj_pair)
    have a': "returns_terminal (approve_leave T req True s')" for s'
      using a [of True] OVERNIGHT by simp
    from OVERNIGHT d v c b show ?thesis
      by (simp add: process_leave_eligibility_def reject_leave_terminal r a')
  next
    case FRIDAY_SUPPER
    obtain rs s2 where c: "tool_restriction_check T (admin_number (student req)) sd ed s1 = (rs, s2)"
      by (meson surj_pair)
    obtain b s3 where b: "tool_leave_balance_check T (admin_number (student req)) ''Supper'' s2 = (b, s3)"
      by (meson surj_pair)
    have a': "returns_terminal (approve_leave T req True s')" for s'
      using a [of True] FRIDAY_SUPPER by simp
    from FRIDAY_SUPPER d v c b show ?thesis
      by (simp add: process_leave_eligibility_def reject_leave_terminal r a')
  next
    case DAY_LEAVE
    have a': "returns_terminal (approve_leave T req False s')" for s'
      using a [of False] by simp
    from DAY_LEAVE d v show ?thesis
      by (simp add: process_leave_eligibility_def reject_leave_terminal r a')
  next
    case SPECIAL
    from SPECIAL d v show ?thesis
      by (simp add: process_leave_eligibility_def reject_leave_terminal r)
  qed
qed

text \<open>
  Claim C8. For every message, sender identifier and channel (and every tool set, store
  and clock reading), the processor raises nothing and returns a decision whose status is
  approved, rejected, special\_pending or error and whose message is not empty: failed
  authentication, a missing student or date, failed linkage, every policy outcome and a
  failed register update all end in such a decision.
\<close>

theorem process_parent_request_terminal:
  "\<exists>d s'. process_parent_request T now message_text sender_identifier chan s = (Inr d, s')
     \<and> status d \<in> {''approved'', ''rejected'', ''special_pending'', ''error''}
     \<and> message d \<noteq> []"
proof -
  have "returns_terminal (process_parent_request T now message_text sender_identifier chan s)"
  proof -
    obtain a s1 where au: "authenticate_parent T sender_identifier chan s = (a, s1)"
      by (meson surj_pair)
    show ?thesis
    proof (cases a)
      case (Auth_failed m)
      have "m = auth_failed_message"
        using au Auth_failed
        by (auto simp: authenticate_parent_def split: prod.splits option.splits if_splits)
      with au Auth_failed show ?thesis
        by (simp add: process_parent_request_def terminal_def auth_failed_message_def)
    next
      case (Authenticated parent_info)
      show ?thesis
      proof (cases "case student_identifier (parse_request now message_text) of
                   None \<Rightarrow> None | Some i \<Rightarrow> if i = [] then None else Some i")
        case None
        with au Authenticated show ?thesis
          by (simp add: process_parent_request_def terminal_def)
      next
        case (Some ident)
        obtain st s2 where l: "tool_student_parent_linkage T (auth_id parent_info) ident s1 = (st, s2)"
          by (meson surj_pair)
        show ?thesis
        proof (cases st)
          case None
          with au Authenticated Some l show ?thesis
            by (simp add: process_parent_request_def terminal_def)
        next
          case (Some student_rec)
          with au Authenticated \<open>_ = Some ident\<close> l show ?thesis
            by (simp add: process_parent_request_def Let_def process_leave_eligibility_terminal)
        qed
      qed
    qed
  qed
  then show ?thesis
    by (cases "process_parent_request T now message_text sender_identifier chan s" rule: returns_terminal.cases)
      (auto simp: terminal_def)
qed


theorem process_parent_request_terminal_witness:
  "\<exists>d. process_parent_request LeaveSystemTools
          \<lparr>ordinal = 739288, hour = 10, minute = 30, second = 0, microsecond = 0\<rparr>
          ''Can James have overnight leave this Saturday?'' ''27603174174'' ''whatsapp'' ()
        = (Inr d, ())
      \<and> status d = ''approved'' \<and> message d \<noteq> []"
proof -
  let ?r = "process_parent_request LeaveSystemTools
          \<lparr>ordinal = 739288, hour = 10, minute = 30, second = 0, microsecond = 0\<rparr>
          ''Can James have overnight leave this Saturday?'' ''27603174174'' ''whatsapp'' ()"
  obtain d s' where d: "?r = (Inr d, s')" "message d \<noteq> []"
    using process_parent_request_terminal [of LeaveSystemTools
        "\<lparr>ordinal = 739288, hour = 10, minute = 30, second = 0, microsecond = 0\<rparr>"
        "''Can James have overnight leave this Saturday?''" "''27603174174''" "''whatsapp''" "()"]
    by blast
  have "(case fst ?r of Inl e \<Rightarrow> [] | Inr x \<Rightarrow> status x) = ''approved''"
    by code_simp
  with d show ?thesis by simp
qed

subsection \<open>Day leave\<close>

lemma placeholder_tools_simps [simp]:
  "tool_date_validity_check LeaveSystemTools b sd ed s = (placeholder_date_validity_check b sd ed, s)"
  "tool_restriction_check LeaveSystemTools a sd ed s = (placeholder_restriction_check a sd ed, s)"
  "tool_leave_balance_check LeaveSystemTools a t s = (placeholder_leave_balance_check a t, s)"
  "tool_leave_update LeaveSystemTools u s = (True, s)"
  by (simp_all add: LeaveSystemTools_def placeholder_leave_update_def)

text \<open>
  Claim C1. A request of the day leave category with both dates, which the date validity
  check accepts, is approved: the processor goes from the validity check straight to the
  register update, so neither the restriction check nor the balance check is called, the
  balances play no part, and the request comes back unchanged with a message that
  reports no remaining balance. With any tool set the store after the run is the store
  after these two calls, and the approval stands when the register update succeeds; with
  the placeholder tools the update always succeeds and the store is left as it was.
\<close>

theorem day_leave_approved:
  assumes "leave_type req = DAY_LEAVE" "start_date req = Some sd" "end_date req = Some ed"
  shows "(\<forall>dv s1 s2.
            tool_date_validity_check T (block (student req)) sd ed s = (dv, s1) \<and> isValid dv
            \<and> tool_leave_update T
                 \<lparr>lu_student_admin_number = admin_number (student req),
                  lu_leave_type = ''Day Leave'',
                  lu_start_date = Some sd, lu_end_date = Some ed,
                  lu_requesting_parent = auth_id (parent req),
                  lu_student_name = full_name (student req),
                  lu_house = house (student req), lu_block = block (student req),
                  lu_departure_timestamp = None, lu_driver_id_capture = None,
                  lu_cancellation_details = None\<rparr> s1 = (True, s2)
          \<longrightarrow> (\<exists>m. format_approval_message req None None = Inr m
                \<and> process_leave_eligibility T req s =
                    (Inr \<lparr>status = ''approved'', reason = None, message = m,
                          d_leave_request = Some req, trigger_reason = None\<rparr>, s2)))
       \<and> (isValid (placeholder_date_validity_check (block (student req)) sd ed)
          \<longrightarrow> (\<exists>m. format_approval_message req None None = Inr m
                \<and> process_leave_eligibility LeaveSystemTools req s =
                    (Inr \<lparr>status = ''approved'', reason = None, message = m,
                          d_leave_request = Some req, trigger_reason = None\<rparr>, s)))"
proof -
  obtain m where m: "format_approval_message req None None = Inr m"
    using assms by (auto simp: format_approval_message_def)
  have g: "process_leave_eligibility T' req s =
        (Inr \<lparr>status = ''approved'', reason = None, message = m,
              d_leave_request = Some req, trigger_reason = None\<rparr>, s2)"
    if "tool_date_validity_check T' (block (student req)) sd ed s = (dv, s1)" "isValid dv"
       "tool_leave_update T'
                 \<lparr>lu_student_admin_number = admin_number (student req),
                  lu_leave_type = ''Day Leave'',
                  lu_start_date = Some sd, lu_end_date = Some ed,
                  lu_requesting_parent = auth_id (parent req),
                  lu_student_name = full_name (student req),
                  lu_house = house (student req), lu_block = block (student req),
                  lu_departure_timestamp = None, lu_driver_id_capture = None,
                  lu_cancellation_details = None\<rparr> s1 = (True, s2)"
    for T' :: "'a tools" and dv s1 s2
    using that assms m by (simp add: process_leave_eligibility_def approve_leave_def)
  show ?thesis
  proof (intro conjI allI impI)
    fix dv s1 s2
    assume "tool_date_validity_check T (block (student req)) sd ed s = (dv, s1) \<and> isValid dv
            \<and> tool_leave_update T
                 \<lparr>lu_student_admin_number = admin_number (student req),
                  lu_leave_type = ''Day Leave'',
                  lu_start_date = Some sd, lu_end_date = Some ed,
                  lu_requesting_parent = auth_id (parent req),
                  lu_student_name = full_name (student req),
                  lu_house = house (student req), lu_block = block (student req),
                  lu_departure_timestamp = None, lu_driver_id_capture = None,
                  lu_cancellation_details = None\<rparr> s1 = (True, s2)"
    then show "\<exists>m. format_approval_message req None None = Inr m
                \<and> process_leave_eligibility T req s =
                    (Inr \<lparr>status = ''approved'', reason = None, message = m,
                          d_leave_request = Some req, trigger_reason = None\<rparr>, s2)"
      using g [of T dv s1 s2] m by blast
  next
    assume "isValid (placeholder_date_validity_check (block (student req)) sd ed)"
    then show "\<exists>m. format_approval_message req None None = Inr m
                \<and> process_leave_eligibility LeaveSystemTools req s =
                    (Inr \<lparr>status = ''approved'', reason = None, message = m,
                          d_leave_request = Some req, trigger_reason = None\<rparr>, s)"
      using g [of LeaveSystemTools "placeholder_date_validity_check (block (student req)) sd ed" s s] m
      by simp
  qed
qed


theorem day_leave_approved_witness:
  "isValid (placeholder_date_validity_check ''C'' \<lparr>ordinal = 739291, hour = 9, minute = 0, second = 0, microsecond = 0\<rparr> \<lparr>ordinal = 739291, hour = 17, minute = 0, second = 0, microsecond = 0\<rparr>)
   \<and> (\<exists>m. process_leave_eligibility LeaveSystemTools
       \<lparr>student = \<lparr>admin_number = ''12345'', first_name = ''James'', last_name = ''Smith'',
          house = ''Finningley'', block = ''C'', overnight_balance = 0,
          friday_supper_balance = 0\<rparr>,
        parent = \<lparr>auth_id = ''PARENT_001'', parent_name = None, phone = None, email = None,
          channel = ''whatsapp''\<rparr>,
        leave_type = DAY_LEAVE,
        start_date = Some \<lparr>ordinal = 739291, hour = 9, minute = 0, second = 0, microsecond = 0\<rparr>,
        end_date = Some \<lparr>ordinal = 739291, hour = 17, minute = 0, second = 0, microsecond = 0\<rparr>,
        lr_status = PENDING, rejection_reason = None, special_leave_reason = None,
        housemaster_notes = None\<rparr> ()
     = (Inr \<lparr>status = ''approved'', reason = None, message = m,
             d_leave_request = Some
       \<lparr>student = \<lparr>admin_number = ''12345'', first_name = ''James'', last_name = ''Smith'',
          house = ''Finningley'', block = ''C'', overnight_balance = 0,
          friday_supper_balance = 0\<rparr>,
        parent = \<lparr>auth_id = ''PARENT_001'', parent_name = None, phone = None, email = None,
          channel = ''whatsapp''\<rparr>,
        leave_type = DAY_LEAVE,
        start_date = Some \<lparr>ordinal = 739291, hour = 9, minute = 0, second = 0, microsecond = 0\<rparr>,
        end_date = Some \<lparr>ordinal = 739291, hour = 17, minute = 0, second = 0, microsecond = 0\<rparr>,
        lr_status = PENDING, rejection_reason = None, special_leave_reason = None,
        housemaster_notes = None\<rparr>,
             trigger_reason = None\<rparr>, ()))"
proof -
  let ?req = "\<lparr>student = \<lparr>admin_number = ''12345'', first_name = ''James'', last_name = ''Smith'',
          house = ''Finningley'', block = ''C'', overnight_balance = 0,
          friday_supper_balance = 0\<rparr>,
        parent = \<lparr>auth_id = ''PARENT_001'', parent_name = None, phone = None, email = None,
          channel = ''whatsapp''\<rparr>,
        leave_type = DAY_LEAVE,
        start_date = Some \<lparr>ordinal = 739291, hour = 9, minute = 0, second = 0, microsecond = 0\<rparr>,
        end_date = Some \<lparr>ordinal = 739291, hour = 17, minute = 0, second = 0, microsecond = 0\<rparr>,
        lr_status = PENDING, rejection_reason = None, special_leave_reason = None,
        housemaster_notes = None\<rparr>"
  have v: "isValid (placeholder_date_validity_check ''C'' \<lparr>ordinal = 739291, hour = 9, minute = 0, second = 0, microsecond = 0\<rparr> \<lparr>ordinal = 739291, hour = 17, minute = 0, second = 0, microsecond = 0\<rparr>)"
    by code_simp
  from day_leave_approved [of ?req "\<lparr>ordinal = 739291, hour = 9, minute = 0, second = 0, microsecond = 0\<rparr>"
      "\<lparr>ordinal = 739291, hour = 17, minute = 0, second = 0, microsecond = 0\<rparr>" LeaveSystemTools "()"] v
  show ?thesis by auto
qed

subsection \<open>The overnight weekday rule\<close>

lemma route_to_special_leave_status:
  "route_to_special_leave req trigger = Inr d \<Longrightarrow>
     status d = ''special_pending'' \<and> trigger_reason d = Some trigger"
  by (auto simp: route_to_special_leave_def split: if_splits)

lemma reject_leave_status: "status (reject_leave req why) = ''rejected''"
  by (simp add: reject_leave_def)

text \<open>
  Claim C2, as amended. For an overnight request with both dates: a decision of approved
  implies that the window starts on a Saturday, and so does every rejection other than
  the one the date validity check itself issues (a restriction, an insufficient balance).
  Once the date validity check has accepted the window, a window that does not start on a
  Saturday gives special\_pending with the trigger of the overnight weekday rule. A window
  that the date validity check refuses is decided by that check before the weekday rule is
  reached, whatever its weekday: special\_pending with the check's reason as trigger when
  the reason names a closed weekend, and rejected with the check's reason otherwise.
\<close>

theorem overnight_saturday_rule:
  assumes "leave_type req = OVERNIGHT" "start_date req = Some sd" "end_date req = Some ed"
    "tool_date_validity_check T (block (student req)) sd ed s = (dv, s1)"
  shows "(isValid dv \<and> weekday sd \<noteq> 5 \<longrightarrow>
            (\<exists>m. process_leave_eligibility T req s =
               (Inr \<lparr>status = ''special_pending'', reason = None, message = m,
                     d_leave_request = Some req,
                     trigger_reason = Some
                       ''Overnight leave requested for a night other than Saturday to Sunday''\<rparr>,
                s1)))
       \<and> (\<forall>d s'. process_leave_eligibility T req s = (Inr d, s') \<and> status d = ''approved''
            \<longrightarrow> weekday sd = 5)
       \<and> (\<forall>d s'. (isValid dv \<or> reason d \<noteq> Some (dv_reason dv))
              \<and> process_leave_eligibility T req s = (Inr d, s')
              \<and> status d = ''rejected''
            \<longrightarrow> weekday sd = 5)
       \<and> (\<not> isValid dv \<and> str_in ''closed weekend'' (lower (dv_reason dv)) \<longrightarrow>
            (\<exists>m. process_leave_eligibility T req s =
               (Inr \<lparr>status = ''special_pending'', reason = None, message = m,
                     d_leave_request = Some req,
                     trigger_reason = Some (dv_reason dv)\<rparr>,
                s1)))
       \<and> (\<not> isValid dv \<and> \<not> str_in ''closed weekend'' (lower (dv_reason dv)) \<longrightarrow>
            process_leave_eligibility T req s = (Inr (reject_leave req (dv_reason dv)), s1)
            \<and> status (reject_leave req (dv_reason dv)) = ''rejected''
            \<and> reason (reject_leave req (dv_reason dv)) = Some (dv_reason dv))"
proof (intro conjI allI impI)
  assume "isValid dv \<and> weekday sd \<noteq> 5"
  with assms show "\<exists>m. process_leave_eligibility T req s =
               (Inr \<lparr>status = ''special_pending'', reason = None, message = m,
                     d_leave_request = Some req,
                     trigger_reason = Some
                       ''Overnight leave requested for a night other than Saturday to Sunday''\<rparr>,
                s1)"
    by (simp add: process_leave_eligibility_def route_to_special_leave_def)
next
  fix d s'
  assume h: "process_leave_eligibility T req s = (Inr d, s') \<and> status d = ''approved''"
  show "weekday sd = 5"
  proof (rule ccontr)
    assume n: "weekday sd \<noteq> 5"
    have "status d \<noteq> ''approved''"
    proof (cases "isValid dv")
      case True
      with n assms h have "route_to_special_leave req
          ''Overnight leave requested for a night other than Saturday to Sunday'' = Inr d"
        by (simp add: process_leave_eligibility_def)
      from route_to_special_leave_status [OF this] show ?thesis by simp
    next
      case False
      show ?thesis
      proof (cases "str_in ''closed weekend'' (lower (dv_reason dv))")
        case True
        with False assms h have "route_to_special_leave req (dv_reason dv) = Inr d"
          by (simp add: process_leave_eligibility_def)
        from route_to_special_leave_status [OF this] show ?thesis by simp
      next
        case c: False
        with False assms h have "d = reject_leave req (dv_reason dv)"
          by (simp add: process_leave_eligibility_def)
        then show ?thesis by (simp add: reject_leave_status)
      qed
    qed
    with h show False by simp
  qed
next
  fix d s'
  assume h: "(isValid dv \<or> reason d \<noteq> Some (dv_reason dv))
              \<and> process_leave_eligibility T req s = (Inr d, s')
              \<and> status d = ''rejected''"
  then have r: "process_leave_eligibility T req s = (Inr d, s')"
    and st: "status d = ''rejected''"
    and o: "isValid dv \<or> reason d \<noteq> Some (dv_reason dv)"
    by blast+
  have v: "isValid dv"
  proof (rule ccontr)
    assume i: "\<not> isValid dv"
    show False
    proof (cases "str_in ''closed weekend'' (lower (dv_reason dv))")
      case True
      with i assms r have "route_to_special_leave req (dv_reason dv) = Inr d"
        by (simp add: process_leave_eligibility_def)
      from route_to_special_leave_status [OF this] st show False by simp
    next
      case False
      with i assms r have "d = reject_leave req (dv_reason dv)"
        by (simp add: process_leave_eligibility_def)
      then have "reason d = Some (dv_reason dv)" by (simp add: reject_leave_def)
      with o i show False by simp
    qed
  qed
  show "weekday sd = 5"
  proof (rule ccontr)
    assume n: "weekday sd \<noteq> 5"
    from n v assms r have "route_to_special_leave req
        ''Overnight leave requested for a night other than Saturday to Sunday'' = Inr d"
      by (simp add: process_leave_eligibility_def)
    from route_to_special_leave_status [OF this] st show False by simp
  qed
next
  assume "\<not> isValid dv \<and> str_in ''closed weekend'' (lower (dv_reason dv))"
  with assms show "\<exists>m. process_leave_eligibility T req s =
               (Inr \<lparr>status = ''special_pending'', reason = None, message = m,
                     d_leave_request = Some req,
                     trigger_reason = Some (dv_reason dv)\<rparr>,
                s1)"
    by (simp add: process_leave_eligibility_def route_to_special_leave_def)
next
  assume "\<not> isValid dv \<and> \<not> str_in ''closed weekend'' (lower (dv_reason dv))"
  with assms show "process_leave_eligibility T req s
      = (Inr (reject_leave req (dv_reason dv)), s1)"
    by (simp add: process_leave_eligibility_def)
next
  show "status (reject_leave req (dv_reason dv)) = ''rejected''"
    by (simp add: reject_leave_def)
next
  show "reason (reject_leave req (dv_reason dv)) = Some (dv_reason dv)"
    by (simp add: reject_leave_def)
qed

theorem overnight_saturday_rule_witness:
  "isValid (placeholder_date_validity_check ''C'' \<lparr>ordinal = 739293, hour = 9, minute = 0, second = 0, microsecond = 0\<rparr> \<lparr>ordinal = 739293, hour = 17, minute = 0, second = 0, microsecond = 0\<rparr>)
   \<and> weekday \<lparr>ordinal = 739293, hour = 9, minute = 0, second = 0, microsecond = 0\<rparr> = 1
   \<and> (\<exists>m. process_leave_eligibility LeaveSystemTools
       \<lparr>student = \<lparr>admin_number = ''12345'', first_name = ''James'', last_name = ''Smith'',
          house = ''Finningley'', block = ''C'', overnight_balance = 3,
          friday_supper_balance = 3\<rparr>,
        parent = \<lparr>auth_id = ''PARENT_001'', parent_name = None, phone = None, email = None,
          channel = ''whatsapp''\<rparr>,
        leave_type = OVERNIGHT,
        start_date = Some \<lparr>ordinal = 739293, hour = 9, minute = 0, second = 0, microsecond = 0\<rparr>,
        end_date = Some \<lparr>ordinal = 739293, hour = 17, minute = 0, second = 0, microsecond = 0\<rparr>,
        lr_status = PENDING, rejection_reason = None, special_leave_reason = None,
        housemaster_notes = None\<rparr> ()
     = (Inr \<lparr>status = ''special_pending'', reason = None, message = m,
             d_leave_request = Some
       \<lparr>student = \<lparr>admin_number = ''12345'', first_name = ''James'', last_name = ''Smith'',
          house = ''Finningley'', block = ''C'', overnight_balance = 3,
          friday_supper_balance = 3\<rparr>,
        parent = \<lparr>auth_id = ''PARENT_001'', parent_name = None, phone = None, email = None,
          channel = ''whatsapp''\<rparr>,
        leave_type = OVERNIGHT,
        start_date = Some \<lparr>ordinal = 739293, hour = 9, minute = 0, second = 0, microsecond = 0\<rparr>,
        end_date = Some \<lparr>ordinal = 739293, hour = 17, minute = 0, second = 0, microsecond = 0\<rparr>,
        lr_status = PENDING, rejection_reason = None, special_leave_reason = None,
        housemaster_notes = None\<rparr>,
             trigger_reason = Some
               ''Overnight leave requested for a night other than Saturday to Sunday''\<rparr>, ()))"
proof -
  let ?req = "\<lparr>student = \<lparr>admin_number = ''12345'', first_name = ''James'', last_name = ''Smith'',
          house = ''Finningley'', block = ''C'', overnight_balance = 3,
          friday_supper_balance = 3\<rparr>,
        parent = \<lparr>auth_id = ''PARENT_001'', parent_name = None, phone = None, email = None,
          channel = ''whatsapp''\<rparr>,
        leave_type = OVERNIGHT,
        start_date = Some \<lparr>ordinal = 739293, hour = 9, minute = 0, second = 0, microsecond = 0\<rparr>,
        end_date = Some \<lparr>ordinal = 739293, hour = 17, minute = 0, second = 0, microsecond = 0\<rparr>,
        lr_status = PENDING, rejection_reason = None, special_leave_reason = None,
        housemaster_notes = None\<rparr>"
  let ?dv = "placeholder_date_validity_check ''C'' \<lparr>ordinal = 739293, hour = 9, minute = 0, second = 0, microsecond = 0\<rparr> \<lparr>ordinal = 739293, hour = 17, minute = 0, second = 0, microsecond = 0\<rparr>"
  have v: "isValid ?dv" by code_simp
  have w: "weekday \<lparr>ordinal = 739293, hour = 9, minute = 0, second = 0, microsecond = 0\<rparr> = 1" by (simp add: weekday_def)
  have t: "tool_date_validity_check LeaveSystemTools (block (student ?req)) \<lparr>ordinal = 739293, hour = 9, minute = 0, second = 0, microsecond = 0\<rparr> \<lparr>ordinal = 739293, hour = 17, minute = 0, second = 0, microsecond = 0\<rparr> ()
      = (?dv, ())"
    by simp
  from overnight_saturday_rule [of ?req "\<lparr>ordinal = 739293, hour = 9, minute = 0, second = 0, microsecond = 0\<rparr>" "\<lparr>ordinal = 739293, hour = 17, minute = 0, second = 0, microsecond = 0\<rparr>" LeaveSystemTools "()" ?dv "()"] t v w
  show ?thesis by auto
qed

text \<open>
  The claim as stated, that every overnight request whose window does not start on a
  Saturday is special\_pending, fails for a window the date validity check refuses: an
  overnight request for Tuesday 1 April 2025, after the end of term, is rejected.
\<close>

theorem overnight_saturday_rule_counterexample:
  "pd_leave_type (parse_request
       \<lparr>ordinal = 739288, hour = 10, minute = 30, second = 0, microsecond = 0\<rparr>
       ''Overnight leave for James 01/04/2025'') = OVERNIGHT
   \<and> map_option weekday (pd_start_date (parse_request
       \<lparr>ordinal = 739288, hour = 10, minute = 30, second = 0, microsecond = 0\<rparr>
       ''Overnight leave for James 01/04/2025'')) = Some 1
   \<and> (case fst (process_parent_request LeaveSystemTools
          \<lparr>ordinal = 739288, hour = 10, minute = 30, second = 0, microsecond = 0\<rparr>
          ''Overnight leave for James 01/04/2025'' ''27603174174'' ''whatsapp'' ()) of
        Inl e \<Rightarrow> False
      | Inr d \<Rightarrow> status d = ''rejected'' \<and> reason d = Some ''Dates fall outside of term dates'')"
  by code_simp

subsection \<open>Restrictions\<close>









end
